theory Spec2Isabelle
  imports Complex_Main
begin

section \<open>Decoded upstream values\<close>

text \<open>
  Both adapters work on what \<^verbatim>\<open>json.loads\<close> returns: a dynamically typed Python value.
  A Python \<^verbatim>\<open>float\<close> is kept by its exact value, with the three special values the
  decoder accepts. A \<^verbatim>\<open>dict\<close> is an association list in which the first binding of a key
  counts. Strings are lists of code points below 256.
\<close>

datatype pyfloat = FNaN | FPosInf | FNegInf | FFin rat

datatype json =
    JNull
  | JBool bool
  | JInt int
  | JFloat pyfloat
  | JStr string
  | JList "json list"
  | JObj "(string \<times> json) list"

text \<open>
  The exceptions that can leave an adapter. \<open>UpstreamError\<close> stands for whatever the
  HTTP client or the decoder raises.
\<close>

datatype error =
    UpstreamError
  | KeyError
  | TypeError
  | AttributeError
  | IndexError
  | ValueError string

text \<open>What an operation does besides returning: the requests it sends and the log lines it writes.\<close>

datatype event = Get string | LogError | LogWarning

type_synonym 'a run = "(error + 'a) \<times> event list"

definition bindE :: "error + 'a \<Rightarrow> ('a \<Rightarrow> error + 'b) \<Rightarrow> error + 'b" where
  "bindE m f = (case m of Inl e \<Rightarrow> Inl e | Inr x \<Rightarrow> f x)"

definition bindR :: "'a run \<Rightarrow> ('a \<Rightarrow> 'b run) \<Rightarrow> 'b run" where
  "bindR m f =
     (case m of
        (Inl e, t) \<Rightarrow> (Inl e, t)
      | (Inr x, t) \<Rightarrow> (case f x of (r, t') \<Rightarrow> (r, t @ t')))"

definition ret :: "'a \<Rightarrow> 'a run" where
  "ret x = (Inr x, [])"

definition lift :: "error + 'a \<Rightarrow> 'a run" where
  "lift m = (m, [])"

definition emit :: "event \<Rightarrow> unit run" where
  "emit ev = (Inr (), [ev])"

subsection \<open>Python's operators on decoded values\<close>

text \<open>\<^verbatim>\<open>bool(v)\<close>, as \<^verbatim>\<open>not v\<close> and \<^verbatim>\<open>if v:\<close> read it.\<close>

fun truthy :: "json \<Rightarrow> bool" where
  "truthy JNull = False"
| "truthy (JBool b) = b"
| "truthy (JInt n) = (n \<noteq> 0)"
| "truthy (JFloat f) = (f \<noteq> FFin 0)"
| "truthy (JStr s) = (s \<noteq> [])"
| "truthy (JList xs) = (xs \<noteq> [])"
| "truthy (JObj kvs) = (kvs \<noteq> [])"

fun starts_with :: "string \<Rightarrow> string \<Rightarrow> bool" where
  "starts_with [] s = True"
| "starts_with (p # ps) [] = False"
| "starts_with (p # ps) (c # cs) = (p = c \<and> starts_with ps cs)"

fun substring :: "string \<Rightarrow> string \<Rightarrow> bool" where
  "substring k [] = (k = [])"
| "substring k (c # cs) = (starts_with k (c # cs) \<or> substring k cs)"

text \<open>
  \<^verbatim>\<open>k in v\<close> for a string \<open>k\<close>: key membership in a dict, element membership in a list,
  substring test in a string, \<^verbatim>\<open>TypeError\<close> on anything else.
\<close>

fun contains :: "string \<Rightarrow> json \<Rightarrow> error + bool" where
  "contains k (JObj kvs) = Inr (map_of kvs k \<noteq> None)"
| "contains k (JList xs) = Inr (JStr k \<in> set xs)"
| "contains k (JStr s) = Inr (substring k s)"
| "contains k v = Inl TypeError"

text \<open>\<^verbatim>\<open>v[k]\<close> for a string \<open>k\<close>: only a dict takes a string subscript.\<close>

fun getitem :: "json \<Rightarrow> string \<Rightarrow> error + json" where
  "getitem (JObj kvs) k = (case map_of kvs k of None \<Rightarrow> Inl KeyError | Some x \<Rightarrow> Inr x)"
| "getitem v k = Inl TypeError"

text \<open>\<^verbatim>\<open>v[0]\<close>; a decoded dict has string keys only, so \<open>0\<close> is never one of them.\<close>

fun getitem0 :: "json \<Rightarrow> error + json" where
  "getitem0 (JList []) = Inl IndexError"
| "getitem0 (JList (x # xs)) = Inr x"
| "getitem0 (JStr []) = Inl IndexError"
| "getitem0 (JStr (c # cs)) = Inr (JStr [c])"
| "getitem0 (JObj kvs) = Inl KeyError"
| "getitem0 v = Inl TypeError"

text \<open>\<^verbatim>\<open>v.get(k, d)\<close>: a method of dicts only.\<close>

fun py_get :: "json \<Rightarrow> string \<Rightarrow> json \<Rightarrow> error + json" where
  "py_get (JObj kvs) k d = Inr (case map_of kvs k of None \<Rightarrow> d | Some x \<Rightarrow> x)"
| "py_get v k d = Inl AttributeError"

fun dict_keys :: "(string \<times> json) list \<Rightarrow> string list" where
  "dict_keys [] = []"
| "dict_keys ((k, v) # kvs) = k # filter (\<lambda>k'. k' \<noteq> k) (dict_keys kvs)"

text \<open>What \<^verbatim>\<open>for x in v\<close> visits: elements, characters, or the keys of a dict.\<close>

fun py_iter :: "json \<Rightarrow> error + json list" where
  "py_iter (JList xs) = Inr xs"
| "py_iter (JStr s) = Inr (map (\<lambda>c. JStr [c]) s)"
| "py_iter (JObj kvs) = Inr (map JStr (dict_keys kvs))"
| "py_iter v = Inl TypeError"

text \<open>\<^verbatim>\<open>xs[:k]\<close>: a negative \<open>k\<close> counts from the end.\<close>

definition slice_to :: "int \<Rightarrow> 'a list \<Rightarrow> 'a list" where
  "slice_to k xs = (if 0 \<le> k then take (nat k) xs else take (length xs - nat (- k)) xs)"

fun py_slice :: "int \<Rightarrow> json \<Rightarrow> error + json" where
  "py_slice k (JList xs) = Inr (JList (slice_to k xs))"
| "py_slice k (JStr s) = Inr (JStr (slice_to k s))"
| "py_slice k v = Inl TypeError"

text \<open>\<^verbatim>\<open>v > 1\<close>: numbers compare by value (\<^verbatim>\<open>bool\<close> is a subclass of \<^verbatim>\<open>int\<close>).\<close>

fun py_gt1 :: "json \<Rightarrow> error + bool" where
  "py_gt1 (JInt n) = Inr (1 < n)"
| "py_gt1 (JBool b) = Inr False"
| "py_gt1 (JFloat (FFin r)) = Inr (1 < r)"
| "py_gt1 (JFloat FPosInf) = Inr True"
| "py_gt1 (JFloat f) = Inr False"
| "py_gt1 v = Inl TypeError"

text \<open>\<^verbatim>\<open>v == n\<close> for an int \<open>n\<close>; never raises.\<close>

fun py_eq_int :: "json \<Rightarrow> int \<Rightarrow> bool" where
  "py_eq_int (JInt k) n = (k = n)"
| "py_eq_int (JBool b) n = ((if b then 1 else 0) = n)"
| "py_eq_int (JFloat (FFin r)) n = (r = of_int n)"
| "py_eq_int v n = False"

text \<open>
  Dict keys: lists and dicts are unhashable; \<^verbatim>\<open>True\<close>, \<^verbatim>\<open>1\<close> and \<^verbatim>\<open>1.0\<close> are one key.
  A dict built by assignments is the list of its items in insertion order.
\<close>

fun hashable :: "json \<Rightarrow> bool" where
  "hashable (JList xs) = False"
| "hashable (JObj kvs) = False"
| "hashable v = True"

fun norm_key :: "json \<Rightarrow> json" where
  "norm_key (JBool b) = JInt (if b then 1 else 0)"
| "norm_key (JFloat (FFin r)) = (if of_int \<lfloor>r\<rfloor> = r then JInt \<lfloor>r\<rfloor> else JFloat (FFin r))"
| "norm_key v = v"

fun dict_put :: "json \<Rightarrow> 'v \<Rightarrow> (json \<times> 'v) list \<Rightarrow> (json \<times> 'v) list" where
  "dict_put k v [] = [(k, v)]"
| "dict_put k v ((k', v') # d) =
     (if norm_key k' = norm_key k then (k', v) # d else (k', v') # dict_put k v d)"

definition dict_set :: "json \<Rightarrow> 'v \<Rightarrow> (json \<times> 'v) list \<Rightarrow> error + (json \<times> 'v) list" where
  "dict_set k v d = (if hashable k then Inr (dict_put k v d) else Inl TypeError)"

subsection \<open>Formatting\<close>

definition digit_char :: "nat \<Rightarrow> char" where
  "digit_char d = ''0123456789'' ! d"

fun show_nat :: "nat \<Rightarrow> string" where
  "show_nat n = (if n < 10 then [digit_char n] else show_nat (n div 10) @ [digit_char (n mod 10)])"

definition show_int :: "int \<Rightarrow> string" where
  "show_int i = (if i < 0 then CHR ''-'' # show_nat (nat (- i)) else show_nat (nat i))"

subsection \<open>Parsed pages\<close>

text \<open>
  The element tree of a page as the tree-query library presents it: \<open>find\<close> returns the
  first descendant in document order with the tag and the attribute value, \<open>find_all\<close>
  all descendants with the tag, \<open>attr\<close> an attribute or nothing.
\<close>

datatype html = Elem (tag: string) (attrs: "(string \<times> string) list") (children: "html list")

fun descendants :: "html \<Rightarrow> html list" where
  "descendants (Elem t as cs) = concat (map (\<lambda>c. c # descendants c) cs)"

definition find_elem :: "string \<Rightarrow> string \<Rightarrow> string \<Rightarrow> html \<Rightarrow> html option" where
  "find_elem t a v doc =
     List.find (\<lambda>e. tag e = t \<and> map_of (attrs e) a = Some v) (descendants doc)"

definition find_all :: "string \<Rightarrow> html \<Rightarrow> html list" where
  "find_all t node = filter (\<lambda>e. tag e = t) (descendants node)"

definition attr :: "html \<Rightarrow> string \<Rightarrow> string option" where
  "attr node a = map_of (attrs node) a"

subsection \<open>Collaborators\<close>

text \<open>
  The collaborators of an adapter object: the HTTP client followed by the JSON decoder,
  the HTTP client followed by the page parser, \<^verbatim>\<open>urllib.parse.quote_plus\<close>, and Python's
  \<^verbatim>\<open>repr\<close> for the values whose text form is not written out below.
\<close>

record env =
  fetch :: "string \<Rightarrow> error + json"
  fetch_html :: "string \<Rightarrow> error + html"
  quote_plus :: "string \<Rightarrow> string"
  py_repr :: "json \<Rightarrow> string"

text \<open>\<^verbatim>\<open>str(v)\<close>, as an f-string formats a value.\<close>

fun py_str :: "env \<Rightarrow> json \<Rightarrow> string" where
  "py_str env (JStr s) = s"
| "py_str env (JInt n) = show_int n"
| "py_str env JNull = ''None''"
| "py_str env (JBool b) = (if b then ''True'' else ''False'')"
| "py_str env v = py_repr env v"

section \<open>The host's value types\<close>

text \<open>
  \<^verbatim>\<open>Metadata\<close>, \<^verbatim>\<open>EpisodeSelector\<close>, \<^verbatim>\<open>Single\<close> and \<^verbatim>\<open>Multi\<close> come from the host.
  The adapters store decoded values in them unchecked, so the fields hold decoded values.
  \<^verbatim>\<open>Metadata\<close> has a \<^verbatim>\<open>year\<close>, which is \<^verbatim>\<open>None\<close> unless given. A field of a descriptor
  is \<open>None\<close> when the adapter does not pass that argument.
\<close>

datatype metadata_type = SINGLE | MULTI

record metadata =
  m_id :: json
  m_title :: json
  m_type :: metadata_type
  m_year :: json

record episode_selector =
  episode :: int
  season :: int

datatype subtitles = SubNone | SubDict "(json \<times> json) list" | SubList "json list"

datatype descriptor =
    Single (url: json) (title: json) (referrer: "string option")
      (year: "json option") (subs: "subtitles option")
  | Multi (url: json) (title: json) (referrer: "string option")
      (selector: "episode_selector option") (subs: "subtitles option")

text \<open>The episode index: a dict from episode number (or \<^verbatim>\<open>None\<close>) to a number.\<close>

type_synonym episode_index = "(json \<times> int) list"

definition sentinel :: episode_index where
  "sentinel = [(JNull, 1)]"

text \<open>
  A generator run to its end: the entries it yielded, the exception that ended it (if one
  did), and the events on the way.
\<close>

type_synonym search_run = "(metadata list \<times> error option) \<times> event list"

fun yield_all :: "(json \<Rightarrow> error + metadata) \<Rightarrow> json list \<Rightarrow> metadata list \<times> error option" where
  "yield_all mk [] = ([], None)"
| "yield_all mk (a # as) =
     (case mk a of
        Inl e \<Rightarrow> ([], Some e)
      | Inr m \<Rightarrow> (case yield_all mk as of (ms, r) \<Rightarrow> (m # ms, r)))"

text \<open>\<^verbatim>\<open>episode.episode if episode and episode.episode else 1\<close>\<close>

definition episode_num :: "episode_selector option \<Rightarrow> int" where
  "episode_num ep =
     (case ep of None \<Rightarrow> 1 | Some s \<Rightarrow> if episode s \<noteq> 0 then episode s else 1)"

section \<open>The JSON-API adapter (HiAnimeScraper)\<close>

definition hi_base_url :: string where
  "hi_base_url = ''https://aniwatch-api-7ehn.onrender.com/api/v2/hianime''"

definition hi_search_url :: string where
  "hi_search_url = hi_base_url @ ''/search''"

definition hi_anime_url :: string where
  "hi_anime_url = hi_base_url @ ''/anime''"

definition hi_episode_url :: string where
  "hi_episode_url = hi_base_url @ ''/episode/sources''"

text \<open>\<^verbatim>\<open>_request\<close>: any exception of the client or the decoder becomes \<^verbatim>\<open>{"data": {}}\<close>.\<close>

definition hi_request :: "env \<Rightarrow> string \<Rightarrow> json run" where
  "hi_request env u =
     (case fetch env u of
        Inr j \<Rightarrow> (Inr j, [Get u])
      | Inl e \<Rightarrow> (Inr (JObj [(''data'', JObj [])]), [Get u, LogError]))"

text \<open>
  The guard of all three operations:
  \<^verbatim>\<open>not r or "data" not in r or key not in r["data"]\<close>.
\<close>

definition hi_missing :: "json \<Rightarrow> string \<Rightarrow> error + bool" where
  "hi_missing r key =
     (if \<not> truthy r then Inr True
      else bindE (contains ''data'' r) (\<lambda>has_data.
        if \<not> has_data then Inr True
        else bindE (getitem r ''data'') (\<lambda>d.
          bindE (contains key d) (\<lambda>has_key. Inr (\<not> has_key)))))"

definition hi_metadata :: "json \<Rightarrow> error + metadata" where
  "hi_metadata anime =
     bindE (getitem anime ''id'') (\<lambda>i.
     bindE (getitem anime ''name'') (\<lambda>n.
     bindE (getitem anime ''episodes'') (\<lambda>eps.
     bindE (getitem eps ''sub'') (\<lambda>sub.
     bindE (py_gt1 sub) (\<lambda>many.
       Inr \<lparr>m_id = i, m_title = n, m_type = (if many then MULTI else SINGLE),
            m_year = JNull\<rparr>)))))"

definition limited :: "int option \<Rightarrow> json \<Rightarrow> error + json" where
  "limited limit animes = (case limit of None \<Rightarrow> Inr animes | Some k \<Rightarrow> py_slice k animes)"

definition hi_search :: "env \<Rightarrow> string \<Rightarrow> int option \<Rightarrow> search_run" where
  "hi_search env query limit =
     (if query = [] then (([], None), [LogError])
      else
        case
          bindR (hi_request env (hi_search_url @ ''?q='' @ quote_plus env query)) (\<lambda>response.
          bindR (lift (hi_missing response ''animes'')) (\<lambda>missing.
            if missing then bindR (emit LogWarning) (\<lambda>_. ret [])
            else lift (bindE (getitem response ''data'') (\<lambda>d.
                       bindE (getitem d ''animes'') (\<lambda>animes.
                       bindE (limited limit animes) py_iter)))))
        of
          (Inl e, t) \<Rightarrow> (([], Some e), t)
        | (Inr animes, t) \<Rightarrow> (yield_all hi_metadata animes, t))"

fun hi_episode_map :: "json list \<Rightarrow> episode_index \<Rightarrow> error + episode_index" where
  "hi_episode_map [] m = Inr m"
| "hi_episode_map (ep # eps) m =
     (case getitem ep ''number'' of
        Inl e \<Rightarrow> Inl e
      | Inr n \<Rightarrow>
          (case dict_set n 1 m of
             Inl e \<Rightarrow> Inl e
           | Inr m' \<Rightarrow> hi_episode_map eps m'))"

definition hi_episodes_request :: "env \<Rightarrow> metadata \<Rightarrow> string" where
  "hi_episodes_request env metadata =
     hi_anime_url @ ''/'' @ py_str env (m_id metadata) @ ''/episodes''"

definition hi_scrape_episodes :: "env \<Rightarrow> metadata \<Rightarrow> episode_index run" where
  "hi_scrape_episodes env metadata =
     bindR (hi_request env (hi_episodes_request env metadata)) (\<lambda>anime_details.
     bindR (lift (hi_missing anime_details ''episodes'')) (\<lambda>missing.
       if missing then bindR (emit LogError) (\<lambda>_. ret sentinel)
       else
         bindR (lift (bindE (getitem anime_details ''data'') (\<lambda>d.
                      bindE (getitem d ''episodes'') (\<lambda>episodes.
                      bindE (py_iter episodes) (\<lambda>eps. hi_episode_map eps []))))) (\<lambda>episode_map.
           if episode_map = [] then ret sentinel else ret episode_map)))"

definition placeholder_single :: "metadata \<Rightarrow> descriptor" where
  "placeholder_single metadata =
     Single (JStr []) (m_title metadata) (Some []) (Some (m_year metadata)) None"

definition placeholder_multi :: "metadata \<Rightarrow> episode_selector option \<Rightarrow> descriptor" where
  "placeholder_multi metadata ep =
     Multi (JStr []) (m_title metadata) (Some []) ep (Some SubNone)"

fun hi_find :: "int \<Rightarrow> json list \<Rightarrow> error + json option" where
  "hi_find n [] = Inr None"
| "hi_find n (ep # eps) =
     (case getitem ep ''number'' of
        Inl e \<Rightarrow> Inl e
      | Inr v \<Rightarrow> if py_eq_int v n then Inr (Some ep) else hi_find n eps)"

text \<open>
  Lines 109 to 139 of \<^verbatim>\<open>scrape\<close>: the target episode (\<open>Inr\<close>), or the placeholder the
  function returns at once (\<open>Inl\<close>).
\<close>

definition hi_target :: "metadata \<Rightarrow> episode_selector option \<Rightarrow> json \<Rightarrow> (descriptor + json) run" where
  "hi_target metadata ep episodes =
     (if m_type metadata = MULTI then
        bindR (lift (bindE (py_iter episodes) (hi_find (episode_num ep)))) (\<lambda>target_episode.
          case target_episode of
            None \<Rightarrow> bindR (emit LogError) (\<lambda>_. ret (Inl (placeholder_multi metadata ep)))
          | Some t \<Rightarrow>
              if \<not> truthy t
              then bindR (emit LogError) (\<lambda>_. ret (Inl (placeholder_multi metadata ep)))
              else ret (Inr t))
      else if truthy episodes then bindR (lift (getitem0 episodes)) (\<lambda>t. ret (Inr t))
      else bindR (emit LogError) (\<lambda>_. ret (Inl (placeholder_single metadata))))"

fun hi_tracks :: "json list \<Rightarrow> (json \<times> json) list \<Rightarrow> error + (json \<times> json) list" where
  "hi_tracks [] subtitles = Inr subtitles"
| "hi_tracks (track # tracks) subtitles =
     (case getitem track ''kind'' of
        Inl e \<Rightarrow> Inl e
      | Inr k \<Rightarrow>
          if k = JStr ''captions'' then
            (case getitem track ''file'' of
               Inl e \<Rightarrow> Inl e
             | Inr f \<Rightarrow>
                 (case getitem track ''label'' of
                    Inl e \<Rightarrow> Inl e
                  | Inr l \<Rightarrow>
                      (case dict_set l f subtitles of
                         Inl e \<Rightarrow> Inl e
                       | Inr subtitles' \<Rightarrow> hi_tracks tracks subtitles')))
          else hi_tracks tracks subtitles)"

definition hi_referrer :: string where
  "hi_referrer = ''https://hianime.to''"

text \<open>Lines 163 to 187: the video URL, the caption tracks and the final descriptor.\<close>

definition hi_media :: "env \<Rightarrow> metadata \<Rightarrow> episode_selector option \<Rightarrow> json \<Rightarrow> json \<Rightarrow> error + descriptor" where
  "hi_media env metadata ep target_episode sources_response =
     bindE (getitem sources_response ''data'') (\<lambda>d.
     bindE (getitem d ''sources'') (\<lambda>sources.
     bindE (getitem0 sources) (\<lambda>source.
     bindE (getitem source ''url'') (\<lambda>video_url.
     bindE (contains ''tracks'' d) (\<lambda>has_tracks.
     bindE (if has_tracks
            then bindE (getitem d ''tracks'') (\<lambda>tracks.
                 bindE (py_iter tracks) (\<lambda>ts. hi_tracks ts []))
            else Inr []) (\<lambda>subtitles.
       if m_type metadata = MULTI then
         bindE (getitem target_episode ''number'') (\<lambda>number.
           Inr (Multi video_url
                  (JStr (py_str env (m_title metadata) @ '' - Episode '' @ py_str env number))
                  (Some hi_referrer) ep (Some (SubDict subtitles))))
       else
         Inr (Single video_url (m_title metadata) (Some hi_referrer)
                (Some (m_year metadata)) None)))))))"

text \<open>Lines 142 to 187: the sources lookup for the target episode.\<close>

definition hi_resolve :: "env \<Rightarrow> metadata \<Rightarrow> episode_selector option \<Rightarrow> json \<Rightarrow> descriptor run" where
  "hi_resolve env metadata ep target_episode =
     bindR (lift (getitem target_episode ''episodeId'')) (\<lambda>episode_id.
     bindR (hi_request env (hi_episode_url @ ''?animeEpisodeId='' @ py_str env episode_id))
       (\<lambda>sources_response.
     bindR (lift (hi_missing sources_response ''sources'')) (\<lambda>missing.
       if missing then
         bindR (emit LogError) (\<lambda>_.
           ret (if m_type metadata = MULTI then placeholder_multi metadata ep
                else placeholder_single metadata))
       else lift (hi_media env metadata ep target_episode sources_response))))"

definition hi_scrape :: "env \<Rightarrow> metadata \<Rightarrow> episode_selector option \<Rightarrow> descriptor run" where
  "hi_scrape env metadata ep =
     bindR (hi_request env (hi_episodes_request env metadata)) (\<lambda>anime_details.
     bindR (lift (hi_missing anime_details ''episodes'')) (\<lambda>missing.
       if missing then bindR (emit LogError) (\<lambda>_. ret (placeholder_single metadata))
       else
         bindR (lift (bindE (getitem anime_details ''data'') (\<lambda>d. getitem d ''episodes'')))
           (\<lambda>episodes.
         bindR (hi_target metadata ep episodes) (\<lambda>found.
           case found of
             Inl placeholder \<Rightarrow> ret placeholder
           | Inr target_episode \<Rightarrow> hi_resolve env metadata ep target_episode))))"

section \<open>The HTML-scraping adapter (AnimePaheScraper)\<close>

definition ap_base_url :: string where
  "ap_base_url = ''https://animepahe.ru''"

definition ap_api_url :: string where
  "ap_api_url = ap_base_url @ ''/api''"

definition ap_search_url :: string where
  "ap_search_url = ap_api_url @ ''?m=search&q=''"

definition ap_release_url :: string where
  "ap_release_url = ap_api_url @ ''?m=release&id=''"

definition ap_play_url :: string where
  "ap_play_url = ap_base_url @ ''/play''"

text \<open>\<^verbatim>\<open>_request\<close> and \<^verbatim>\<open>_request_html\<close> catch nothing.\<close>

definition ap_request :: "env \<Rightarrow> string \<Rightarrow> json run" where
  "ap_request env u = (fetch env u, [Get u])"

definition ap_request_html :: "env \<Rightarrow> string \<Rightarrow> html run" where
  "ap_request_html env u = (fetch_html env u, [Get u])"

definition ap_metadata :: "json \<Rightarrow> error + metadata" where
  "ap_metadata anime =
     bindE (getitem anime ''session'') (\<lambda>i.
     bindE (getitem anime ''title'') (\<lambda>n.
     bindE (getitem anime ''episodes'') (\<lambda>eps.
     bindE (py_gt1 eps) (\<lambda>many.
       Inr \<lparr>m_id = i, m_title = n, m_type = (if many then MULTI else SINGLE),
            m_year = JNull\<rparr>))))"

definition ap_search :: "env \<Rightarrow> string \<Rightarrow> int option \<Rightarrow> search_run" where
  "ap_search env query limit =
     (case
        bindR (ap_request env (ap_search_url @ quote_plus env query)) (\<lambda>response.
          lift (bindE (py_get response ''data'' (JList [])) (\<lambda>animes.
                bindE (limited limit animes) py_iter)))
      of
        (Inl e, t) \<Rightarrow> (([], Some e), t)
      | (Inr animes, t) \<Rightarrow> (yield_all ap_metadata animes, t))"

text \<open>
  \<^verbatim>\<open>int(re.search(r"Episode (\d+)", s).group(1))\<close>: the digits after the leftmost
  \<^verbatim>\<open>Episode \<close> that a digit follows.
\<close>

definition is_digit :: "char \<Rightarrow> bool" where
  "is_digit c = (c \<in> set ''0123456789'')"

fun strip_prefix :: "string \<Rightarrow> string \<Rightarrow> string option" where
  "strip_prefix [] s = Some s"
| "strip_prefix (p # ps) [] = None"
| "strip_prefix (p # ps) (c # cs) = (if p = c then strip_prefix ps cs else None)"

fun re_search_episode :: "string \<Rightarrow> string option" where
  "re_search_episode [] = None"
| "re_search_episode (c # cs) =
     (case strip_prefix ''Episode '' (c # cs) of
        None \<Rightarrow> re_search_episode cs
      | Some rest \<Rightarrow>
          if takeWhile is_digit rest \<noteq> [] then Some (takeWhile is_digit rest)
          else re_search_episode cs)"

definition int_of_digits :: "string \<Rightarrow> int" where
  "int_of_digits ds = foldl (\<lambda>a c. 10 * a + (of_char c - 48)) 0 ds"

definition ap_episode_number :: "json \<Rightarrow> error + int" where
  "ap_episode_number ep =
     bindE (py_get ep ''episode'' (JStr ''Episode 1'')) (\<lambda>t.
       case t of
         JStr s \<Rightarrow>
           (case re_search_episode s of
              None \<Rightarrow> Inl AttributeError
            | Some ds \<Rightarrow> Inr (int_of_digits ds))
       | _ \<Rightarrow> Inl TypeError)"

fun ap_episode_map :: "json list \<Rightarrow> episode_index \<Rightarrow> error + episode_index" where
  "ap_episode_map [] m = Inr m"
| "ap_episode_map (ep # eps) m =
     (case ap_episode_number ep of
        Inl e \<Rightarrow> Inl e
      | Inr episode_number \<Rightarrow>
          (case dict_set (JInt 1) episode_number m of
             Inl e \<Rightarrow> Inl e
           | Inr m' \<Rightarrow> ap_episode_map eps m'))"

definition ap_release_request :: "env \<Rightarrow> metadata \<Rightarrow> string" where
  "ap_release_request env metadata =
     ap_release_url @ py_str env (m_id metadata) @ ''&sort=episode_asc&page=1''"

definition ap_scrape_episodes :: "env \<Rightarrow> metadata \<Rightarrow> episode_index run" where
  "ap_scrape_episodes env metadata =
     bindR (ap_request env (ap_release_request env metadata)) (\<lambda>response.
     bindR (lift (bindE (py_get response ''data'' (JList [])) (\<lambda>episodes.
                  bindE (py_iter episodes) (\<lambda>eps. ap_episode_map eps [])))) (\<lambda>episode_map.
       if episode_map = [] then ret sentinel else ret episode_map))"

fun ap_find :: "int \<Rightarrow> json list \<Rightarrow> error + json option" where
  "ap_find n [] = Inr None"
| "ap_find n (ep # eps) =
     (case ap_episode_number ep of
        Inl e \<Rightarrow> Inl e
      | Inr ep_num \<Rightarrow> if ep_num = n then Inr (Some ep) else ap_find n eps)"

text \<open>Lines 100 to 113 of \<^verbatim>\<open>scrape\<close>: the target episode, or \<^verbatim>\<open>None\<close>.\<close>

definition ap_target :: "metadata \<Rightarrow> episode_selector option \<Rightarrow> json \<Rightarrow> error + json option" where
  "ap_target metadata ep episodes_data =
     (if m_type metadata = MULTI then
        bindE (py_iter episodes_data) (ap_find (episode_num ep))
      else if truthy episodes_data then bindE (getitem0 episodes_data) (\<lambda>t. Inr (Some t))
      else Inr None)"

text \<open>\<^verbatim>\<open>episode.episode\<close>, with no test that the selector is there.\<close>

definition selector_episode :: "episode_selector option \<Rightarrow> error + int" where
  "selector_episode ep = (case ep of None \<Rightarrow> Inl AttributeError | Some s \<Rightarrow> Inr (episode s))"

definition ap_not_found :: "episode_selector option \<Rightarrow> error + 'a" where
  "ap_not_found ep =
     bindE (selector_episode ep) (\<lambda>n.
       Inl (ValueError (''Episode '' @ show_int n @ '' not found'')))"

text \<open>Lines 124 to 141: the first download link of the playback page.\<close>

definition ap_download :: "html \<Rightarrow> error + json" where
  "ap_download soup =
     bindE (case find_elem ''div'' ''id'' ''pickDownload'' soup of
              None \<Rightarrow> Inl AttributeError
            | Some node \<Rightarrow> Inr (find_all ''a'' node)) (\<lambda>download_options.
     bindE (case find_elem ''div'' ''id'' ''resolutionMenu'' soup of
              None \<Rightarrow> Inl AttributeError
            | Some node \<Rightarrow> Inr (find_all ''button'' node)) (\<lambda>embed_sources.
       case download_options of
         [] \<Rightarrow> Inl (ValueError ''No download options found'')
       | a # _ \<Rightarrow>
           (case embed_sources of
              [] \<Rightarrow> Inl IndexError
            | b # _ \<Rightarrow>
                Inr (case attr a ''href'' of None \<Rightarrow> JNull | Some download_url \<Rightarrow> JStr download_url))))"

text \<open>Lines 147 to 161: the episode title and the final descriptor.\<close>

definition ap_media :: "env \<Rightarrow> metadata \<Rightarrow> episode_selector option \<Rightarrow> json \<Rightarrow> json \<Rightarrow> error + descriptor" where
  "ap_media env metadata ep target_episode video_url =
     bindE (selector_episode ep) (\<lambda>n.
     bindE (py_get target_episode ''episode'' (JStr (''Episode '' @ show_int n))) (\<lambda>episode_title.
       if m_type metadata = MULTI then
         Inr (Multi video_url
                (JStr (py_str env (m_title metadata) @ '' - '' @ py_str env episode_title))
                None ep (Some (SubList [])))
       else
         Inr (Single video_url (m_title metadata) None None (Some (SubList [])))))"

text \<open>Lines 118 to 161: the playback page of the target episode.\<close>

definition ap_resolve :: "env \<Rightarrow> metadata \<Rightarrow> episode_selector option \<Rightarrow> json \<Rightarrow> descriptor run" where
  "ap_resolve env metadata ep target_episode =
     bindR (lift (getitem target_episode ''session'')) (\<lambda>episode_session.
     bindR (ap_request_html env
              (ap_play_url @ ''/'' @ py_str env (m_id metadata) @ ''/'' @ py_str env episode_session))
       (\<lambda>soup.
       lift (bindE (ap_download soup) (ap_media env metadata ep target_episode))))"

definition ap_scrape :: "env \<Rightarrow> metadata \<Rightarrow> episode_selector option \<Rightarrow> descriptor run" where
  "ap_scrape env metadata ep =
     bindR (ap_request env (ap_release_request env metadata)) (\<lambda>response.
     bindR (lift (bindE (py_get response ''data'' (JList [])) (ap_target metadata ep)))
       (\<lambda>found.
       case found of
         None \<Rightarrow> lift (ap_not_found ep)
       | Some target_episode \<Rightarrow>
           if \<not> truthy target_episode then lift (ap_not_found ep)
           else ap_resolve env metadata ep target_episode))"

section \<open>Shapes of responses\<close>

text \<open>
  The vocabulary of the statements about \<open>search\<close>. A search result is valid when it has the
  identifier, the title and an integer episode count where the adapter reads them
  (\<^verbatim>\<open>episodes.sub\<close> for the JSON-API adapter, \<^verbatim>\<open>episodes\<close> for the HTML-scraping one). An
  entry is classified from a result when it carries the result's identifier and title and is
  \<open>Multi\<close> exactly when the count exceeds 1. \<open>truncated\<close> is the listing a limit leaves: the
  first \<open>k\<close> elements for a limit \<open>k\<close> that is not negative, and all but the last \<open>-k\<close> for
  a negative one. A response lacks a key when it is an object without \<^verbatim>\<open>data\<close>, or one whose
  \<^verbatim>\<open>data\<close> is an object without that key.
\<close>

definition hi_count :: "json \<Rightarrow> error + json" where
  "hi_count anime = bindE (getitem anime ''episodes'') (\<lambda>eps. getitem eps ''sub'')"

definition ap_count :: "json \<Rightarrow> error + json" where
  "ap_count anime = getitem anime ''episodes''"

definition count_of :: "(json \<Rightarrow> error + json) \<Rightarrow> json \<Rightarrow> int option" where
  "count_of count anime = (case count anime of Inr (JInt c) \<Rightarrow> Some c | _ \<Rightarrow> None)"

definition valid_result :: "string \<Rightarrow> string \<Rightarrow> (json \<Rightarrow> error + json) \<Rightarrow> json \<Rightarrow> bool" where
  "valid_result id_key title_key count anime =
     (\<not> isl (getitem anime id_key) \<and> \<not> isl (getitem anime title_key)
      \<and> count_of count anime \<noteq> None)"

definition classified ::
  "string \<Rightarrow> string \<Rightarrow> (json \<Rightarrow> error + json) \<Rightarrow> json \<Rightarrow> metadata \<Rightarrow> bool" where
  "classified id_key title_key count anime entry =
     (getitem anime id_key = Inr (m_id entry) \<and> getitem anime title_key = Inr (m_title entry)
      \<and> (case count_of count anime of
            None \<Rightarrow> False
          | Some c \<Rightarrow> (m_type entry = MULTI) = (1 < c)))"

definition truncated :: "int option \<Rightarrow> 'a list \<Rightarrow> 'a list" where
  "truncated limit xs =
     (case limit of
        None \<Rightarrow> xs
      | Some k \<Rightarrow> if 0 \<le> k then take (nat k) xs else take (length xs - nat (- k)) xs)"

definition lacks :: "json \<Rightarrow> string \<Rightarrow> bool" where
  "lacks r key =
     (case r of
        JObj kvs \<Rightarrow>
          (case map_of kvs ''data'' of
             None \<Rightarrow> True
           | Some (JObj d) \<Rightarrow> map_of d key = None
           | Some _ \<Rightarrow> False)
      | _ \<Rightarrow> False)"

section \<open>Example upstreams\<close>

text \<open>
  Concrete collaborators for the evaluations below. Their \<open>quote_plus\<close> is right on the
  queries used here (letters only, or empty), and their \<open>py_repr\<close> is never reached.
\<close>

definition plain_env :: "(string \<Rightarrow> error + json) \<Rightarrow> (string \<Rightarrow> error + html) \<Rightarrow> env" where
  "plain_env f h = \<lparr>fetch = f, fetch_html = h, quote_plus = (\<lambda>s. s), py_repr = (\<lambda>v. ''?'')\<rparr>"

definition offline :: env where
  "offline = plain_env (\<lambda>u. Inl UpstreamError) (\<lambda>u. Inl UpstreamError)"

definition always :: "json \<Rightarrow> env" where
  "always r = plain_env (\<lambda>u. Inr r) (\<lambda>u. Inl UpstreamError)"

definition naruto :: metadata where
  "naruto = \<lparr>m_id = JStr ''naruto'', m_title = JStr ''Naruto'', m_type = MULTI, m_year = JNull\<rparr>"

definition film :: metadata where
  "film = \<lparr>m_id = JStr ''film'', m_title = JStr ''Film'', m_type = SINGLE, m_year = JNull\<rparr>"

definition one_episode :: json where
  "one_episode =
     JObj [(''data'', JObj [(''episodes'',
       JList [JObj [(''number'', JInt 1), (''episodeId'', JStr ''abc'')]])])]"

definition hi_upstream :: "json \<Rightarrow> env" where
  "hi_upstream sources =
     plain_env
       (\<lambda>u. if u = hi_anime_url @ ''/naruto/episodes'' then Inr one_episode else Inr sources)
       (\<lambda>u. Inl UpstreamError)"

definition no_sources :: json where
  "no_sources = JObj [(''data'', JObj [(''sources'', JList [])])]"

definition second_episode :: json where
  "second_episode =
     JObj [(''data'', JList [JObj [(''session'', JStr ''s2''), (''episode'', JStr ''Episode 2'')]])]"

definition play_page :: html where
  "play_page =
     Elem ''[document]'' []
       [Elem ''div'' [(''id'', ''pickDownload'')] [Elem ''a'' [(''href'', ''https://kwik.si/f/x'')] []],
        Elem ''div'' [(''id'', ''resolutionMenu'')] [Elem ''button'' [(''data-src'', ''https://kwik.si/e/x'')] []]]"

definition ap_upstream :: "json \<Rightarrow> html \<Rightarrow> env" where
  "ap_upstream listing page = plain_env (\<lambda>u. Inr listing) (\<lambda>u. Inr page)"

definition one_result :: json where
  "one_result =
     JObj [(''data'',
       JList [JObj [(''session'', JStr ''abc''), (''title'', JStr ''Naruto''), (''episodes'', JInt 220)]])]"

definition two_episodes :: json where
  "two_episodes =
     JObj [(''data'',
       JList [JObj [(''session'', JStr ''s1''), (''episode'', JStr ''Episode 1'')],
              JObj [(''session'', JStr ''s2''), (''episode'', JStr ''Episode 2'')]])]"

definition empty_listing :: json where
  "empty_listing = JObj [(''data'', JObj [(''episodes'', JList [])])]"

definition good_sources :: json where
  "good_sources =
     JObj [(''data'', JObj
       [(''sources'', JList [JObj [(''url'', JStr ''https://x/vid.m3u8'')]]),
        (''tracks'', JList
           [JObj [(''kind'', JStr ''captions''), (''label'', JStr ''English''),
                  (''file'', JStr ''https://x/en.vtt'')],
            JObj [(''kind'', JStr ''thumbnails''), (''file'', JStr ''https://x/t.vtt'')]])])]"

definition film_upstream :: env where
  "film_upstream =
     plain_env
       (\<lambda>u. if u = hi_anime_url @ ''/film/episodes'' then Inr one_episode else Inr good_sources)
       (\<lambda>u. Inl UpstreamError)"

definition three_animes :: json where
  "three_animes =
     JObj [(''data'', JObj [(''animes'', JList
       [JObj [(''id'', JStr ''naruto-677''), (''name'', JStr ''Naruto''),
              (''episodes'', JObj [(''sub'', JInt 220)])],
        JObj [(''id'', JStr ''the-last''), (''name'', JStr ''The Last''),
              (''episodes'', JObj [(''sub'', JInt 1)])],
        JObj [(''id'', JStr ''boruto''), (''name'', JStr ''Boruto''),
              (''episodes'', JObj [(''sub'', JInt 293)])]])])]"

definition three_results :: json where
  "three_results =
     JObj [(''data'', JList
       [JObj [(''session'', JStr ''abc''), (''title'', JStr ''Naruto''), (''episodes'', JInt 220)],
        JObj [(''session'', JStr ''def''), (''title'', JStr ''The Last''), (''episodes'', JInt 1)],
        JObj [(''session'', JStr ''ghi''), (''title'', JStr ''Boruto''), (''episodes'', JInt 293)]])]"

definition episodes_five_six :: json where
  "episodes_five_six =
     JObj [(''data'',
       JList [JObj [(''session'', JStr ''s5''), (''episode'', JStr ''Episode 5'')],
              JObj [(''session'', JStr ''s6''), (''episode'', JStr ''Episode 6'')]])]"

definition numbers_five_six :: json where
  "numbers_five_six =
     JObj [(''data'', JObj [(''episodes'',
       JList [JObj [(''number'', JInt 5), (''episodeId'', JStr ''e5'')],
              JObj [(''number'', JInt 6), (''episodeId'', JStr ''e6'')]])])]"

section \<open>Properties\<close>

subsection \<open>Sequencing\<close>

lemma bindE_Inl [simp]: "bindE (Inl e) f = Inl e"
  by (simp add: bindE_def)

lemma bindE_Inr [simp]: "bindE (Inr x) f = f x"
  by (simp add: bindE_def)

lemma bindR_Inl [simp]: "bindR (Inl e, t) f = (Inl e, t)"
  by (simp add: bindR_def)

lemma bindR_Inr [simp]: "bindR (Inr x, t) f = (fst (f x), t @ snd (f x))"
  by (simp add: bindR_def split: prod.splits)

lemma bindR_ret [simp]: "bindR (ret x) f = f x"
  by (simp add: ret_def)

lemma bindR_emit [simp]: "bindR (emit ev) f = (fst (f ()), ev # snd (f ()))"
  by (simp add: emit_def)

lemma bindR_lift_Inl [simp]: "bindR (lift (Inl e)) f = (Inl e, [])"
  by (simp add: lift_def)

lemma bindR_lift_Inr [simp]: "bindR (lift (Inr x)) f = f x"
  by (simp add: lift_def)

lemma lift_parts [simp]: "fst (lift m) = m" "snd (lift m) = []"
  by (simp_all add: lift_def)

lemma ret_parts [simp]: "fst (ret x) = Inr x" "snd (ret x) = []"
  by (simp_all add: ret_def)

lemma bindE_result:
  "bindE a f = Inr y \<longleftrightarrow> (\<exists>x. a = Inr x \<and> f x = Inr y)"
  by (cases a) simp_all


lemma bindR_lift:
  "bindR (lift m) f = (case m of Inl e \<Rightarrow> (Inl e, []) | Inr x \<Rightarrow> f x)"
  by (cases m) simp_all

lemma bindR_pair:
  "bindR (m, t) f = (case m of Inl e \<Rightarrow> (Inl e, t) | Inr x \<Rightarrow> (fst (f x), t @ snd (f x)))"
  by (cases m) simp_all

lemmas url_defs =
  hi_base_url_def hi_search_url_def hi_anime_url_def hi_episode_url_def hi_episodes_request_def
  ap_base_url_def ap_api_url_def ap_search_url_def ap_release_url_def ap_play_url_def
  ap_release_request_def

lemmas example_defs =
  plain_env_def offline_def always_def naruto_def film_def one_episode_def hi_upstream_def
  no_sources_def second_episode_def play_page_def ap_upstream_def one_result_def
  two_episodes_def empty_listing_def good_sources_def film_upstream_def three_animes_def
  three_results_def episodes_five_six_def numbers_five_six_def

subsection \<open>Placeholders of the JSON-API adapter\<close>

text \<open>
  When the episode listing cannot be had, \<open>scrape\<close> returns the \<open>Single\<close> placeholder,
  whatever the kind of the entry: the kind is not read before line 110.
\<close>

lemma hi_scrape_fetch_failed:
  "fetch env (hi_episodes_request env m) = Inl e \<Longrightarrow>
   hi_scrape env m ep =
     (Inr (placeholder_single m), [Get (hi_episodes_request env m), LogError, LogError])"
  by (simp add: hi_scrape_def hi_request_def hi_missing_def)

lemma hi_scrape_listing_missing:
  "fetch env (hi_episodes_request env m) = Inr r \<Longrightarrow> hi_missing r ''episodes'' = Inr True \<Longrightarrow>
   hi_scrape env m ep = (Inr (placeholder_single m), [Get (hi_episodes_request env m), LogError])"
  by (simp add: hi_scrape_def hi_request_def)

text \<open>
  C1 at a failing input: the upstream is unreachable, the entry is of kind \<open>Multi\<close> and the
  selector asks for episode 3. The result is a \<open>Single\<close> descriptor, which has no place for
  the selector, where the claim asks for a \<open>Multi\<close> placeholder carrying it. The URL is empty
  and the title is carried through.
\<close>

theorem hi_scrape_unavailable_multi_entry:
  "hi_scrape offline naruto (Some \<lparr>episode = 3, season = 1\<rparr>) =
     (Inr (Single (JStr []) (JStr ''Naruto'') (Some []) (Some JNull) None),
      [Get (hi_anime_url @ ''/naruto/episodes''), LogError, LogError])"
  by (simp add: hi_scrape_def hi_request_def hi_missing_def placeholder_single_def
      example_defs hi_episodes_request_def)

text \<open>
  C2 at a failing input: the listing holds episode 1 and the sources lookup answers
  \<^verbatim>\<open>{"data": {"sources": []}}\<close>. The guard of line 144 lets the response through, and
  \<^verbatim>\<open>sources[0]\<close> on line 164 raises \<^verbatim>\<open>IndexError\<close>, where the claim asks for a placeholder.
\<close>

theorem hi_scrape_empty_sources_raises:
  "hi_scrape (hi_upstream no_sources) naruto (Some \<lparr>episode = 1, season = 1\<rparr>) =
     (Inl IndexError,
      [Get (hi_anime_url @ ''/naruto/episodes''), Get (hi_episode_url @ ''?animeEpisodeId=abc'')])"
  by (simp add: hi_scrape_def hi_request_def hi_missing_def hi_target_def episode_num_def
      hi_resolve_def hi_media_def example_defs url_defs)

text \<open>A caption track without its \<^verbatim>\<open>kind\<close> key raises as well (line 170).\<close>

lemma hi_scrape_malformed_track_raises:
  "hi_scrape
     (hi_upstream (JObj [(''data'', JObj
        [(''sources'', JList [JObj [(''url'', JStr ''https://x/vid.m3u8'')]]),
         (''tracks'', JList [JObj [(''label'', JStr ''English'')]])])]))
     naruto (Some \<lparr>episode = 1, season = 1\<rparr>) =
   (Inl KeyError,
    [Get (hi_anime_url @ ''/naruto/episodes''), Get (hi_episode_url @ ''?animeEpisodeId=abc'')])"
  by (simp add: hi_scrape_def hi_request_def hi_missing_def hi_target_def episode_num_def
      hi_resolve_def hi_media_def example_defs url_defs)

subsection \<open>The episode that is not there\<close>

text \<open>
  C3 at a failing input: the HTML-scraping adapter, an entry of kind \<open>Multi\<close>, no selector
  (so episode 1 is wanted) and a listing that holds episode 2 only. Line 102 allows for the
  absent selector, but the message of line 116 reads \<^verbatim>\<open>episode.episode\<close>, so what is raised
  is \<^verbatim>\<open>AttributeError\<close> and not the "not found" error.
\<close>

theorem ap_scrape_absent_selector_not_found:
  "ap_scrape (ap_upstream second_episode play_page) naruto None =
     (Inl AttributeError, [Get (ap_release_url @ ''naruto&sort=episode_asc&page=1'')])"
  by (simp add: ap_scrape_def ap_request_def ap_target_def episode_num_def ap_episode_number_def
      ap_not_found_def selector_episode_def is_digit_def int_of_digits_def example_defs url_defs)

text \<open>With a selector the same listing gives the "not found" error, and episode 2 resolves.\<close>

lemma ap_scrape_not_found:
  "ap_scrape (ap_upstream second_episode play_page) naruto (Some \<lparr>episode = 1, season = 1\<rparr>) =
     (Inl (ValueError ''Episode 1 not found''),
      [Get (ap_release_url @ ''naruto&sort=episode_asc&page=1'')])"
  by (simp add: ap_scrape_def ap_request_def ap_target_def episode_num_def ap_episode_number_def
      ap_not_found_def selector_episode_def is_digit_def int_of_digits_def example_defs url_defs
      show_int_def digit_char_def)

lemma ap_scrape_found:
  "ap_scrape (ap_upstream second_episode play_page) naruto (Some \<lparr>episode = 2, season = 1\<rparr>) =
     (Inr (Multi (JStr ''https://kwik.si/f/x'') (JStr ''Naruto - Episode 2'') None
            (Some \<lparr>episode = 2, season = 1\<rparr>) (Some (SubList []))),
      [Get (ap_release_url @ ''naruto&sort=episode_asc&page=1''),
       Get ''https://animepahe.ru/play/naruto/s2''])"
  by (simp add: ap_scrape_def ap_request_def ap_target_def episode_num_def ap_episode_number_def
      ap_not_found_def selector_episode_def is_digit_def int_of_digits_def example_defs url_defs
      show_int_def digit_char_def ap_resolve_def ap_request_html_def ap_download_def ap_media_def
      find_elem_def find_all_def attr_def)

subsection \<open>Dicts built by assignment\<close>

lemma dict_put_nonempty [simp]: "dict_put k v d \<noteq> []"
  by (cases d) (auto split: if_splits)

lemma dict_put_keys: "(k', v') \<in> set (dict_put k v d) \<Longrightarrow> k' = k \<or> k' \<in> fst ` set d"
  by (induction d) (force split: if_splits)+

lemma dict_put_keeps: "(k', v') \<in> set d \<Longrightarrow> k' \<in> fst ` set (dict_put k v d)"
  by (induction d) (force split: if_splits)+

lemma dict_put_values: "(k', v') \<in> set (dict_put k v d) \<Longrightarrow> v' = v \<or> v' \<in> snd ` set d"
  by (induction d) (force split: if_splits)+

lemma dict_put_has: "\<exists>k'. (k', v) \<in> set (dict_put k v d) \<and> norm_key k' = norm_key k"
  by (induction d) (auto split: if_splits)

lemma dict_put_same: "(k, v) \<in> set d \<Longrightarrow> (k, v) \<in> set (dict_put k' v d)"
  by (induction d) (auto split: if_splits)

subsection \<open>The episode index\<close>

lemma getitem_present: "getitem r k = Inr d \<Longrightarrow> truthy r \<and> contains k r = Inr True"
  by (cases r) (auto split: option.splits)

lemma hi_missing_present:
  "getitem r ''data'' = Inr d \<Longrightarrow> getitem d key = Inr l \<Longrightarrow> hi_missing r key = Inr False"
  using getitem_present [of r "''data''" d] getitem_present [of d key l]
  by (simp add: hi_missing_def)

lemma hi_episode_map_empty:
  "hi_episode_map eps m0 = Inr [] \<Longrightarrow> eps = [] \<and> m0 = []"
  by (induction eps arbitrary: m0) (fastforce simp: dict_set_def split: sum.splits if_splits)+

lemma hi_episode_map_mono:
  "hi_episode_map eps m0 = Inr m \<Longrightarrow> (k, 1) \<in> set m0 \<Longrightarrow> (k, 1) \<in> set m"
  by (induction eps arbitrary: m0)
    (auto simp: dict_set_def dict_put_same split: sum.splits if_splits)

lemma hi_episode_map_complete:
  "hi_episode_map eps m0 = Inr m \<Longrightarrow> ep \<in> set eps \<Longrightarrow>
   \<exists>n k. getitem ep ''number'' = Inr n \<and> (k, 1) \<in> set m \<and> norm_key k = norm_key n"
proof (induction eps arbitrary: m0)
  case Nil
  then show ?case by simp
next
  case (Cons a eps)
  from Cons.prems(1) obtain n where n: "getitem a ''number'' = Inr n"
    and rest: "hi_episode_map eps (dict_put n 1 m0) = Inr m"
    by (auto simp: dict_set_def split: sum.splits if_splits)
  show ?case
  proof (cases "ep = a")
    case True
    obtain k where "(k, 1) \<in> set (dict_put n 1 m0)" "norm_key k = norm_key n"
      using dict_put_has [of 1 n m0] by auto
    with hi_episode_map_mono [OF rest] n True show ?thesis by auto
  next
    case False
    with Cons.prems(2) have "ep \<in> set eps" by simp
    from Cons.IH [OF rest this] show ?thesis .
  qed
qed

lemma dict_put_cases:
  "(k', v') \<in> set (dict_put k v d) \<Longrightarrow>
   (k', v') \<in> set d \<or> (v' = v \<and> (k' = k \<or> k' \<in> fst ` set d))"
  by (induction d) (force split: if_splits)+

lemma hi_episode_map_sound:
  "hi_episode_map eps m0 = Inr m \<Longrightarrow> (k, v) \<in> set m \<Longrightarrow>
   (k, v) \<in> set m0 \<or> (v = 1 \<and> (k \<in> fst ` set m0 \<or> (\<exists>ep\<in>set eps. getitem ep ''number'' = Inr k)))"
proof (induction eps arbitrary: m0)
  case Nil
  then show ?case by simp
next
  case (Cons a eps)
  from Cons.prems(1) obtain n where n: "getitem a ''number'' = Inr n"
    and rest: "hi_episode_map eps (dict_put n 1 m0) = Inr m"
    by (auto simp: dict_set_def split: sum.splits if_splits)
  from Cons.IH [OF rest Cons.prems(2)]
  consider "(k, v) \<in> set (dict_put n 1 m0)"
    | "v = 1" "k \<in> fst ` set (dict_put n 1 m0)"
    | "v = 1" "\<exists>ep\<in>set eps. getitem ep ''number'' = Inr k"
    by blast
  then show ?case
  proof cases
    case 1
    from dict_put_cases [OF 1] n show ?thesis by auto
  next
    case 2
    then obtain v' where "(k, v') \<in> set (dict_put n 1 m0)" by auto
    from dict_put_keys [OF this] 2 n show ?thesis by auto
  next
    case 3
    then show ?thesis by auto
  qed
qed

lemma ap_episode_map_last:
  "ap_episode_map eps m0 = Inr m \<Longrightarrow> eps \<noteq> [] \<Longrightarrow> m0 = [] \<or> (\<exists>n0. m0 = [(JInt 1, n0)]) \<Longrightarrow>
   \<exists>n. ap_episode_number (last eps) = Inr n \<and> m = [(JInt 1, n)]"
proof (induction eps arbitrary: m0)
  case Nil
  then show ?case by simp
next
  case (Cons ep eps)
  from Cons.prems(1) obtain k where k: "ap_episode_number ep = Inr k"
    and rest: "ap_episode_map eps (dict_put (JInt 1) k m0) = Inr m"
    by (auto simp: dict_set_def split: sum.splits)
  from Cons.prems(3) have one: "dict_put (JInt 1) k m0 = [(JInt 1, k)]"
    by auto
  show ?case
  proof (cases "eps = []")
    case True
    with rest one k show ?thesis by simp
  next
    case False
    with Cons.IH [OF rest False] one show ?thesis by simp
  qed
qed

lemma ap_episode_map_total:
  "\<forall>ep\<in>set eps. \<exists>k. ap_episode_number ep = Inr k \<Longrightarrow> \<exists>m. ap_episode_map eps m0 = Inr m"
  by (induction eps arbitrary: m0) (auto simp: dict_set_def)

lemma ap_episode_map_empty:
  "ap_episode_map eps m0 = Inr [] \<Longrightarrow> eps = [] \<and> m0 = []"
  by (induction eps arbitrary: m0) (fastforce simp: dict_set_def split: sum.splits)+

lemma ap_episode_map_shape:
  "ap_episode_map eps [] = Inr idx \<Longrightarrow> idx = [] \<or> (\<exists>n. idx = [(JInt 1, n)])"
  using ap_episode_map_last [of eps "[]" idx] by (cases "eps = []") auto

text \<open>
  Neither \<open>scrape_episodes\<close> returns the empty mapping. The JSON-API adapter returns the
  sentinel when the request fails, when its guard finds the listing missing and when the listing
  is the empty list; the HTML-scraping adapter returns it when the \<open>data\<close> key is absent or
  holds the empty list. From a non-empty list the JSON-API adapter returns a populated mapping:
  every listed episode number is a key (up to the identification of equal numbers) with value 1,
  and every item is such a number with value 1.
\<close>

theorem scrape_episodes_never_empty:
  "fst (hi_scrape_episodes env m) \<noteq> Inr []
   \<and> fst (ap_scrape_episodes env m) \<noteq> Inr []
   \<and> (\<forall>e. fetch env (hi_episodes_request env m) = Inl e \<longrightarrow>
         fst (hi_scrape_episodes env m) = Inr sentinel)
   \<and> (\<forall>r. fetch env (hi_episodes_request env m) = Inr r \<and> hi_missing r ''episodes'' = Inr True \<longrightarrow>
         fst (hi_scrape_episodes env m) = Inr sentinel)
   \<and> (\<forall>r d. fetch env (hi_episodes_request env m) = Inr r \<and> getitem r ''data'' = Inr d
         \<and> getitem d ''episodes'' = Inr (JList []) \<longrightarrow>
         fst (hi_scrape_episodes env m) = Inr sentinel)
   \<and> (\<forall>r. fetch env (ap_release_request env m) = Inr r
         \<and> py_get r ''data'' (JList []) = Inr (JList []) \<longrightarrow>
         fst (ap_scrape_episodes env m) = Inr sentinel)
   \<and> (\<forall>r d eps idx. fetch env (hi_episodes_request env m) = Inr r \<and> getitem r ''data'' = Inr d
         \<and> getitem d ''episodes'' = Inr (JList eps) \<and> eps \<noteq> []
         \<and> fst (hi_scrape_episodes env m) = Inr idx \<longrightarrow>
         (\<forall>ep\<in>set eps. \<exists>n k. getitem ep ''number'' = Inr n \<and> (k, 1) \<in> set idx
            \<and> norm_key k = norm_key n)
         \<and> (\<forall>(k, v)\<in>set idx. v = 1 \<and> (\<exists>ep\<in>set eps. getitem ep ''number'' = Inr k)))"
proof (intro conjI allI impI)
  show "fst (hi_scrape_episodes env m) \<noteq> Inr []"
    by (auto simp: hi_scrape_episodes_def hi_request_def bindR_lift sentinel_def
        split: sum.splits if_splits)
  show "fst (ap_scrape_episodes env m) \<noteq> Inr []"
    by (auto simp: ap_scrape_episodes_def ap_request_def bindR_lift bindR_pair sentinel_def
        split: sum.splits if_splits)
next
  fix e assume "fetch env (hi_episodes_request env m) = Inl e"
  then show "fst (hi_scrape_episodes env m) = Inr sentinel"
    by (simp add: hi_scrape_episodes_def hi_request_def hi_missing_def)
next
  fix r assume "fetch env (hi_episodes_request env m) = Inr r \<and> hi_missing r ''episodes'' = Inr True"
  then show "fst (hi_scrape_episodes env m) = Inr sentinel"
    by (simp add: hi_scrape_episodes_def hi_request_def)
next
  fix r d
  assume "fetch env (hi_episodes_request env m) = Inr r \<and> getitem r ''data'' = Inr d
         \<and> getitem d ''episodes'' = Inr (JList [])"
  then show "fst (hi_scrape_episodes env m) = Inr sentinel"
    by (simp add: hi_scrape_episodes_def hi_request_def hi_missing_present)
next
  fix r
  assume "fetch env (ap_release_request env m) = Inr r
         \<and> py_get r ''data'' (JList []) = Inr (JList [])"
  then show "fst (ap_scrape_episodes env m) = Inr sentinel"
    by (simp add: ap_scrape_episodes_def ap_request_def)
next
  fix r d eps idx
  assume a: "fetch env (hi_episodes_request env m) = Inr r \<and> getitem r ''data'' = Inr d
         \<and> getitem d ''episodes'' = Inr (JList eps) \<and> eps \<noteq> []
         \<and> fst (hi_scrape_episodes env m) = Inr idx"
  then have built: "hi_episode_map eps [] = Inr idx"
    by (auto simp: hi_scrape_episodes_def hi_request_def hi_missing_present bindR_lift
        split: sum.splits if_splits dest: hi_episode_map_empty)
  show "\<forall>ep\<in>set eps. \<exists>n k. getitem ep ''number'' = Inr n \<and> (k, 1) \<in> set idx
            \<and> norm_key k = norm_key n"
    using hi_episode_map_complete [OF built] by blast
  show "\<forall>(k, v)\<in>set idx. v = 1 \<and> (\<exists>ep\<in>set eps. getitem ep ''number'' = Inr k)"
    using hi_episode_map_sound [OF built] by auto
qed

theorem scrape_episodes_never_empty_witness:
  "fetch offline (hi_episodes_request offline naruto) = Inl UpstreamError
   \<and> fst (hi_scrape_episodes offline naruto) = Inr sentinel
   \<and> hi_missing (JObj []) ''episodes'' = Inr True
   \<and> fst (hi_scrape_episodes (always (JObj [])) naruto) = Inr sentinel
   \<and> fst (hi_scrape_episodes (always empty_listing) naruto) = Inr sentinel
   \<and> py_get (JObj []) ''data'' (JList []) = Inr (JList [])
   \<and> fst (ap_scrape_episodes (always (JObj [])) naruto) = Inr sentinel
   \<and> fst (hi_scrape_episodes (hi_upstream no_sources) naruto) = Inr [(JInt 1, 1)]
   \<and> (\<exists>k. (k, 1) \<in> set [(JInt 1, 1::int)] \<and> norm_key k = norm_key (JInt 1))"
proof -
  have a: "fetch offline (hi_episodes_request offline naruto) = Inl UpstreamError"
    by (simp add: example_defs)
  have b: "fetch (always (JObj [])) (hi_episodes_request (always (JObj [])) naruto) = Inr (JObj [])"
    "hi_missing (JObj []) ''episodes'' = Inr True"
    by (simp_all add: example_defs hi_missing_def)
  have c: "fetch (always empty_listing) (hi_episodes_request (always empty_listing) naruto)
      = Inr empty_listing"
    "getitem empty_listing ''data'' = Inr (JObj [(''episodes'', JList [])])"
    "getitem (JObj [(''episodes'', JList [])]) ''episodes'' = Inr (JList [])"
    by (simp_all add: example_defs)
  have d: "fetch (always (JObj [])) (ap_release_request (always (JObj [])) naruto) = Inr (JObj [])"
    "py_get (JObj []) ''data'' (JList []) = Inr (JList [])"
    by (simp_all add: example_defs)
  have e: "fetch (hi_upstream no_sources) (hi_episodes_request (hi_upstream no_sources) naruto)
      = Inr one_episode"
    "getitem one_episode ''data'' = Inr (JObj [(''episodes'',
       JList [JObj [(''number'', JInt 1), (''episodeId'', JStr ''abc'')]])])"
    "getitem (JObj [(''episodes'',
       JList [JObj [(''number'', JInt 1), (''episodeId'', JStr ''abc'')]])]) ''episodes''
      = Inr (JList [JObj [(''number'', JInt 1), (''episodeId'', JStr ''abc'')]])"
    "fst (hi_scrape_episodes (hi_upstream no_sources) naruto) = Inr [(JInt 1, 1)]"
    by (simp_all add: example_defs url_defs hi_scrape_episodes_def hi_request_def hi_missing_def
        dict_set_def)
  from scrape_episodes_never_empty [of offline naruto] a
  have 1: "fst (hi_scrape_episodes offline naruto) = Inr sentinel" by blast
  from scrape_episodes_never_empty [of "always (JObj [])" naruto] b
  have 2: "fst (hi_scrape_episodes (always (JObj [])) naruto) = Inr sentinel" by blast
  from scrape_episodes_never_empty [of "always empty_listing" naruto] c
  have 3: "fst (hi_scrape_episodes (always empty_listing) naruto) = Inr sentinel" by blast
  from scrape_episodes_never_empty [of "always (JObj [])" naruto] d
  have 4: "fst (ap_scrape_episodes (always (JObj [])) naruto) = Inr sentinel" by blast
  from scrape_episodes_never_empty [of "hi_upstream no_sources" naruto] e
  have "\<forall>ep\<in>set [JObj [(''number'', JInt 1), (''episodeId'', JStr ''abc'')]].
          \<exists>n k. getitem ep ''number'' = Inr n \<and> (k, 1) \<in> set [(JInt 1, 1::int)]
            \<and> norm_key k = norm_key n"
    by blast
  then have 5: "\<exists>k. (k, 1) \<in> set [(JInt 1, 1::int)] \<and> norm_key k = norm_key (JInt 1)"
    by simp
  from a b(2) d(2) e(4) 1 2 3 4 5 show ?thesis by blast
qed

text \<open>
  C6 at a failing input: the HTML-scraping adapter and a listing of episodes 5 and 6. Line 63
  stores every episode under the key 1 (\<^verbatim>\<open>episode_map[1] = episode_number\<close>, commented
  "Map to season 1"), so the result is \<open>{1: 6}\<close> and not a mapping from the episode numbers 5
  and 6 to a group.
\<close>

theorem ap_scrape_episodes_keyed_by_one:
  "ap_scrape_episodes (always episodes_five_six) naruto =
     (Inr [(JInt 1, 6)], [Get (ap_release_url @ ''naruto&sort=episode_asc&page=1'')])"
  by (simp add: ap_scrape_episodes_def ap_request_def ap_episode_number_def is_digit_def
      int_of_digits_def dict_set_def example_defs url_defs)

text \<open>The JSON-API adapter keys the same listing by episode number (line 83).\<close>

lemma hi_scrape_episodes_keyed_by_number:
  "hi_scrape_episodes (always numbers_five_six) naruto =
     (Inr [(JInt 5, 1), (JInt 6, 1)], [Get (hi_anime_url @ ''/naruto/episodes'')])"
  by (simp add: hi_scrape_episodes_def hi_request_def hi_missing_def dict_set_def
      example_defs url_defs)

text \<open>
  Nor is the sentinel what every unavailable listing gives: the HTML-scraping adapter lets a
  failed request through, and \<^verbatim>\<open>{"data": null}\<close> raises \<^verbatim>\<open>TypeError\<close> in both adapters.
\<close>

lemma scrape_episodes_raises:
  "fst (ap_scrape_episodes offline naruto) = Inl UpstreamError
   \<and> fst (ap_scrape_episodes (always (JObj [(''data'', JNull)])) naruto) = Inl TypeError
   \<and> fst (hi_scrape_episodes (always (JObj [(''data'', JNull)])) naruto) = Inl TypeError"
  by (simp add: ap_scrape_episodes_def ap_request_def hi_scrape_episodes_def hi_request_def
      hi_missing_def example_defs)

text \<open>
  C10. The HTML-scraping adapter's \<open>scrape_episodes\<close> returns a mapping with one key: the
  sentinel, or \<open>{1: n}\<close>. When the response holds a list under \<open>data\<close>: the empty list gives
  the sentinel; a non-empty list gives, whenever the call returns, \<open>{1: n}\<close> with \<open>n\<close> the
  number parsed from the last element; and the call returns whenever every element parses.
  Each element is stored under the constant key 1 (line 63).
\<close>

theorem ap_scrape_episodes_single_key:
  "(\<forall>idx. fst (ap_scrape_episodes env m) = Inr idx \<longrightarrow>
      idx = sentinel \<or> (\<exists>n. idx = [(JInt 1, n)]))
   \<and> (\<forall>r eps. fetch env (ap_release_request env m) = Inr r
         \<and> py_get r ''data'' (JList []) = Inr (JList eps) \<longrightarrow>
       (eps = [] \<longrightarrow> fst (ap_scrape_episodes env m) = Inr sentinel)
       \<and> (\<forall>idx. eps \<noteq> [] \<and> fst (ap_scrape_episodes env m) = Inr idx \<longrightarrow>
            (\<exists>n. ap_episode_number (last eps) = Inr n \<and> idx = [(JInt 1, n)]))
       \<and> ((\<forall>ep\<in>set eps. \<exists>k. ap_episode_number ep = Inr k) \<longrightarrow>
            (\<exists>idx. fst (ap_scrape_episodes env m) = Inr idx)))"
proof (intro conjI allI impI)
  fix idx
  assume "fst (ap_scrape_episodes env m) = Inr idx"
  then show "idx = sentinel \<or> (\<exists>n. idx = [(JInt 1, n)])"
    by (auto simp: ap_scrape_episodes_def ap_request_def bindR_def bindE_def lift_def ret_def
        split: sum.splits if_splits dest: ap_episode_map_shape)
next
  fix r eps
  assume "fetch env (ap_release_request env m) = Inr r \<and> py_get r ''data'' (JList []) = Inr (JList eps)"
    and "eps = []"
  then show "fst (ap_scrape_episodes env m) = Inr sentinel"
    by (simp add: ap_scrape_episodes_def ap_request_def)
next
  fix r eps idx
  assume "fetch env (ap_release_request env m) = Inr r \<and> py_get r ''data'' (JList []) = Inr (JList eps)"
    and "eps \<noteq> [] \<and> fst (ap_scrape_episodes env m) = Inr idx"
  then show "\<exists>n. ap_episode_number (last eps) = Inr n \<and> idx = [(JInt 1, n)]"
    by (auto simp: ap_scrape_episodes_def ap_request_def bindR_lift split: sum.splits if_splits
        dest: ap_episode_map_last [where ?m0.0="[]"] ap_episode_map_empty)
next
  fix r eps
  assume "fetch env (ap_release_request env m) = Inr r \<and> py_get r ''data'' (JList []) = Inr (JList eps)"
    and "\<forall>ep\<in>set eps. \<exists>k. ap_episode_number ep = Inr k"
  then show "\<exists>idx. fst (ap_scrape_episodes env m) = Inr idx"
    using ap_episode_map_total [of eps "[]"]
    by (auto simp: ap_scrape_episodes_def ap_request_def)
qed

theorem ap_scrape_episodes_single_key_witness:
  "fetch (always two_episodes) (ap_release_request (always two_episodes) naruto) = Inr two_episodes
   \<and> py_get two_episodes ''data'' (JList []) =
       Inr (JList [JObj [(''session'', JStr ''s1''), (''episode'', JStr ''Episode 1'')],
                   JObj [(''session'', JStr ''s2''), (''episode'', JStr ''Episode 2'')]])
   \<and> fst (ap_scrape_episodes (always two_episodes) naruto) = Inr [(JInt 1, 2)]"
proof -
  let ?eps = "[JObj [(''session'', JStr ''s1''), (''episode'', JStr ''Episode 1'')],
               JObj [(''session'', JStr ''s2''), (''episode'', JStr ''Episode 2'')]]"
  have f: "fetch (always two_episodes) (ap_release_request (always two_episodes) naruto)
      = Inr two_episodes"
    and g: "py_get two_episodes ''data'' (JList []) = Inr (JList ?eps)"
    by (simp_all add: example_defs)
  have parse: "\<forall>ep\<in>set ?eps. \<exists>k. ap_episode_number ep = Inr k"
    and l: "ap_episode_number (last ?eps) = Inr 2"
    by (simp_all add: ap_episode_number_def is_digit_def int_of_digits_def)
  from ap_scrape_episodes_single_key [of "always two_episodes" naruto] f g parse
  obtain idx where idx: "fst (ap_scrape_episodes (always two_episodes) naruto) = Inr idx"
    by blast
  with ap_scrape_episodes_single_key [of "always two_episodes" naruto] f g
  have "\<exists>n. ap_episode_number (last ?eps) = Inr n \<and> idx = [(JInt 1, n)]"
    by blast
  with l idx f g show ?thesis by auto
qed

subsection \<open>Locating the target episode\<close>


lemma hi_find_none:
  "hi_find n eps = Inr None \<Longrightarrow> \<forall>p\<in>set eps. \<exists>w. getitem p ''number'' = Inr w \<and> \<not> py_eq_int w n"
  by (induction eps) (auto split: sum.splits if_splits)

lemma ap_find_first:
  "ap_find n eps = Inr (Some t) \<Longrightarrow>
   \<exists>pre post. eps = pre @ t # post \<and> ap_episode_number t = Inr n
     \<and> (\<forall>p\<in>set pre. \<exists>w. ap_episode_number p = Inr w \<and> w \<noteq> n)"
proof (induction eps)
  case Nil
  then show ?case by simp
next
  case (Cons a eps)
  from Cons.prems obtain v where v: "ap_episode_number a = Inr v"
    by (auto split: sum.splits)
  show ?case
  proof (cases "v = n")
    case True
    with Cons.prems v have "t = a" by simp
    with v True have "a # eps = [] @ t # eps \<and> ap_episode_number t = Inr n
       \<and> (\<forall>p\<in>set []. \<exists>w. ap_episode_number p = Inr w \<and> w \<noteq> n)"
      by simp
    then show ?thesis by blast
  next
    case False
    with Cons.prems v have "ap_find n eps = Inr (Some t)" by simp
    from Cons.IH [OF this] obtain pre post where
      p: "eps = pre @ t # post" "ap_episode_number t = Inr n"
        "\<forall>p\<in>set pre. \<exists>w. ap_episode_number p = Inr w \<and> w \<noteq> n"
      by blast
    with v False have "a # eps = (a # pre) @ t # post \<and> ap_episode_number t = Inr n
       \<and> (\<forall>p\<in>set (a # pre). \<exists>w. ap_episode_number p = Inr w \<and> w \<noteq> n)"
      by simp
    then show ?thesis by blast
  qed
qed

lemma ap_find_none:
  "ap_find n eps = Inr None \<Longrightarrow> \<forall>p\<in>set eps. \<exists>w. ap_episode_number p = Inr w \<and> w \<noteq> n"
  by (induction eps) (auto split: sum.splits if_splits)

lemma hi_media_single_selector:
  "m_type m = SINGLE \<Longrightarrow> hi_media env m ep t s = hi_media env m ep' t s"
  by (simp add: hi_media_def)

lemma hi_resolve_single_selector:
  "m_type m = SINGLE \<Longrightarrow> hi_resolve env m ep t = hi_resolve env m ep' t"
  by (simp add: hi_resolve_def hi_media_single_selector [of m env ep _ _ ep'] cong: if_cong)

lemma hi_target_single:
  "m_type m = SINGLE \<Longrightarrow> hi_target m ep (JList (e # es)) = (Inr (Inr e), [])"
  by (simp add: hi_target_def ret_def)

lemma ap_target_single:
  "m_type m = SINGLE \<Longrightarrow> ap_target m ep (JList (e # es)) = Inr (Some e)"
  by (simp add: ap_target_def)

text \<open>
  When no element of the listing has the wanted number, the JSON-API adapter returns the
  \<open>Multi\<close> placeholder. The HTML-scraping adapter raises the "not found" error when a
  selector was passed, and \<^verbatim>\<open>AttributeError\<close> when none was.
\<close>

lemma hi_scrape_multi_absent:
  "m_type m = MULTI \<Longrightarrow> fetch env (hi_episodes_request env m) = Inr r \<Longrightarrow>
   getitem r ''data'' = Inr d \<Longrightarrow> getitem d ''episodes'' = Inr (JList eps) \<Longrightarrow>
   hi_find (episode_num ep) eps = Inr None \<Longrightarrow>
   hi_scrape env m ep = (Inr (placeholder_multi m ep), [Get (hi_episodes_request env m), LogError])"
  by (simp add: hi_scrape_def hi_request_def hi_missing_present hi_target_def)

lemma ap_scrape_multi_absent:
  "m_type m = MULTI \<Longrightarrow> fetch env (ap_release_request env m) = Inr r \<Longrightarrow>
   py_get r ''data'' (JList []) = Inr (JList eps) \<Longrightarrow>
   ap_find (episode_num ep) eps = Inr None \<Longrightarrow>
   ap_scrape env m ep =
     ((case ep of
         None \<Rightarrow> Inl AttributeError
       | Some s \<Rightarrow> Inl (ValueError (''Episode '' @ show_int (episode s) @ '' not found''))),
      [Get (ap_release_request env m)])"
  by (simp add: ap_scrape_def ap_request_def ap_target_def ap_not_found_def selector_episode_def
      lift_def split: option.splits)

text \<open>
  C8. For an entry of kind \<open>Single\<close> and a listing with first element \<open>e\<close>, both adapters take
  \<open>e\<close> as the target, for every selector (absent, zero or any episode number). The JSON-API
  adapter's \<open>scrape\<close> is then the sources lookup for \<open>e\<close>, and its result does not depend on
  the selector at all. The HTML-scraping adapter's \<open>scrape\<close> is the resolution of the playback
  page of \<open>e\<close>, unless \<open>e\<close> is an empty object, which line 115 takes for "no target".
\<close>

theorem scrape_single_targets_first:
  "m_type m = SINGLE \<Longrightarrow>
     hi_target m ep (JList (e # es)) = (Inr (Inr e), [])
   \<and> ap_target m ep (JList (e # es)) = Inr (Some e)
   \<and> (\<forall>r d. fetch env (hi_episodes_request env m) = Inr r \<and> getitem r ''data'' = Inr d
         \<and> getitem d ''episodes'' = Inr (JList (e # es)) \<longrightarrow>
         hi_scrape env m ep =
           (fst (hi_resolve env m ep e),
            Get (hi_episodes_request env m) # snd (hi_resolve env m ep e))
         \<and> hi_scrape env m ep = hi_scrape env m None)
   \<and> (\<forall>r. fetch env (ap_release_request env m) = Inr r
         \<and> py_get r ''data'' (JList []) = Inr (JList (e # es)) \<longrightarrow>
         ap_scrape env m ep =
           (if truthy e
            then (fst (ap_resolve env m ep e),
                  Get (ap_release_request env m) # snd (ap_resolve env m ep e))
            else (ap_not_found ep, [Get (ap_release_request env m)])))"
  by (auto simp: hi_target_single ap_target_single hi_scrape_def ap_scrape_def hi_request_def
      ap_request_def hi_missing_present hi_resolve_single_selector [of m env ep _ None])

theorem scrape_single_targets_first_witness:
  "m_type film = SINGLE
   \<and> hi_scrape film_upstream film (Some \<lparr>episode = 7, season = 1\<rparr>) =
       (Inr (Single (JStr ''https://x/vid.m3u8'') (JStr ''Film'') (Some ''https://hianime.to'')
          (Some JNull) None),
        [Get (hi_anime_url @ ''/film/episodes''), Get (hi_episode_url @ ''?animeEpisodeId=abc'')])
   \<and> hi_scrape film_upstream film (Some \<lparr>episode = 7, season = 1\<rparr>) =
       hi_scrape film_upstream film None
   \<and> ap_scrape (ap_upstream second_episode play_page) film (Some \<lparr>episode = 7, season = 1\<rparr>) =
       (Inr (Single (JStr ''https://kwik.si/f/x'') (JStr ''Film'') None None (Some (SubList []))),
        [Get (ap_release_url @ ''film&sort=episode_asc&page=1''),
         Get ''https://animepahe.ru/play/film/s2''])"
proof -
  let ?sel = "Some \<lparr>episode = 7, season = 1\<rparr>"
  let ?e = "JObj [(''number'', JInt 1), (''episodeId'', JStr ''abc'')]"
  let ?a = "JObj [(''session'', JStr ''s2''), (''episode'', JStr ''Episode 2'')]"
  let ?up = "ap_upstream second_episode play_page"
  have single: "m_type film = SINGLE"
    by (simp add: film_def)
  have hi: "fetch film_upstream (hi_episodes_request film_upstream film) = Inr one_episode"
    "getitem one_episode ''data'' = Inr (JObj [(''episodes'', JList [?e])])"
    "getitem (JObj [(''episodes'', JList [?e])]) ''episodes'' = Inr (JList [?e])"
    by (simp_all add: example_defs url_defs)
  have ap: "fetch ?up (ap_release_request ?up film) = Inr second_episode"
    "py_get second_episode ''data'' (JList []) = Inr (JList [?a])"
    by (simp_all add: example_defs)
  have resolve: "hi_resolve film_upstream film ?sel ?e =
      (Inr (Single (JStr ''https://x/vid.m3u8'') (JStr ''Film'') (Some ''https://hianime.to'')
          (Some JNull) None),
       [Get (hi_episode_url @ ''?animeEpisodeId=abc'')])"
    by (simp add: hi_resolve_def hi_request_def hi_missing_def hi_media_def hi_referrer_def
        dict_set_def example_defs url_defs)
  have page: "ap_resolve ?up film ?sel ?a =
      (Inr (Single (JStr ''https://kwik.si/f/x'') (JStr ''Film'') None None (Some (SubList []))),
       [Get ''https://animepahe.ru/play/film/s2''])"
    by (simp add: ap_resolve_def ap_request_html_def ap_download_def ap_media_def
        selector_episode_def find_elem_def find_all_def attr_def example_defs url_defs)
  from scrape_single_targets_first [OF single, of ?sel ?e "[]" film_upstream] hi
  have 1: "hi_scrape film_upstream film ?sel =
      (fst (hi_resolve film_upstream film ?sel ?e),
       Get (hi_episodes_request film_upstream film) # snd (hi_resolve film_upstream film ?sel ?e))"
    and 2: "hi_scrape film_upstream film ?sel = hi_scrape film_upstream film None"
    by blast+
  from scrape_single_targets_first [OF single, of ?sel ?a "[]" ?up] ap
  have 3: "ap_scrape ?up film ?sel =
      (fst (ap_resolve ?up film ?sel ?a),
       Get (ap_release_request ?up film) # snd (ap_resolve ?up film ?sel ?a))"
    by simp
  from 1 resolve have 4: "hi_scrape film_upstream film ?sel =
       (Inr (Single (JStr ''https://x/vid.m3u8'') (JStr ''Film'') (Some ''https://hianime.to'')
          (Some JNull) None),
        [Get (hi_anime_url @ ''/film/episodes''), Get (hi_episode_url @ ''?animeEpisodeId=abc'')])"
    by (simp add: example_defs hi_episodes_request_def)
  from 3 page have 5: "ap_scrape ?up film ?sel =
       (Inr (Single (JStr ''https://kwik.si/f/x'') (JStr ''Film'') None None (Some (SubList []))),
        [Get (ap_release_url @ ''film&sort=episode_asc&page=1''),
         Get ''https://animepahe.ru/play/film/s2''])"
    by (simp add: example_defs ap_release_request_def)
  from single 4 2 5 show ?thesis by blast
qed

subsection \<open>Assembled descriptors\<close>

lemma not_multi [simp]: "(t \<noteq> MULTI) = (t = SINGLE)"
  by (cases t) simp_all













subsection \<open>Search results\<close>

lemma count_of_Some:
  "count_of count a = Some c \<longleftrightarrow> count a = Inr (JInt c)"
  by (auto simp: count_of_def split: sum.splits json.splits)

lemma hi_metadata_valid:
  assumes "valid_result ''id'' ''name'' hi_count a"
  shows "\<exists>e. hi_metadata a = Inr e \<and> classified ''id'' ''name'' hi_count a e"
proof -
  from assms obtain i t c where
    i: "getitem a ''id'' = Inr i" and t: "getitem a ''name'' = Inr t"
    and c: "count_of hi_count a = Some c"
    by (cases "getitem a ''id''"; cases "getitem a ''name''") (auto simp: valid_result_def)
  from c have "hi_count a = Inr (JInt c)" by (simp add: count_of_Some)
  then obtain eps where "getitem a ''episodes'' = Inr eps" "getitem eps ''sub'' = Inr (JInt c)"
    by (auto simp: hi_count_def bindE_result)
  with i t c show ?thesis
    by (simp add: hi_metadata_def classified_def)
qed

lemma ap_metadata_valid:
  assumes "valid_result ''session'' ''title'' ap_count a"
  shows "\<exists>e. ap_metadata a = Inr e \<and> classified ''session'' ''title'' ap_count a e"
proof -
  from assms obtain i t c where
    i: "getitem a ''session'' = Inr i" and t: "getitem a ''title'' = Inr t"
    and c: "count_of ap_count a = Some c"
    by (cases "getitem a ''session''"; cases "getitem a ''title''") (auto simp: valid_result_def)
  from c have "getitem a ''episodes'' = Inr (JInt c)" by (simp add: count_of_Some ap_count_def)
  with i t c show ?thesis
    by (simp add: ap_metadata_def classified_def)
qed

lemma yield_all_valid:
  assumes "\<And>a. P a \<Longrightarrow> \<exists>e. mk a = Inr e \<and> R a e"
  shows "list_all P as \<Longrightarrow> \<exists>entries. yield_all mk as = (entries, None) \<and> list_all2 R as entries"
proof (induction as)
  case Nil
  then show ?case by simp
next
  case (Cons a as)
  then obtain e where e: "mk a = Inr e" "R a e" using assms by auto
  from Cons obtain entries where "yield_all mk as = (entries, None)" "list_all2 R as entries"
    by auto
  with e show ?case by simp
qed

lemma limited_list:
  "bindE (limited limit (JList as)) py_iter = Inr (truncated limit as)"
  by (simp add: limited_def truncated_def slice_to_def split: option.splits)

lemma list_all_truncated: "list_all P xs \<Longrightarrow> list_all P (truncated limit xs)"
  by (auto simp: truncated_def list_all_iff split: option.splits dest: in_set_takeD)

text \<open>
  C7. For a non-empty query (the HTML-scraping adapter takes any query) and a response whose
  results are all valid, \<open>search\<close> raises nothing and yields one entry per result of the
  truncated listing, in the same order, each carrying its result's identifier and title and
  being \<open>Multi\<close> exactly when the result's episode count is greater than 1. Without a limit
  the listing is whole; with a limit \<open>k \<ge> 0\<close> it is the first \<open>k\<close> results.
\<close>

theorem search_classifies_in_order:
  "(q \<noteq> [] \<and> fetch env (hi_search_url @ ''?q='' @ quote_plus env q) = Inr r
      \<and> getitem r ''data'' = Inr d \<and> getitem d ''animes'' = Inr (JList as)
      \<and> list_all (valid_result ''id'' ''name'' hi_count) as \<longrightarrow>
      (\<exists>entries. fst (hi_search env q limit) = (entries, None)
         \<and> list_all2 (classified ''id'' ''name'' hi_count) (truncated limit as) entries))
   \<and> (fetch env (ap_search_url @ quote_plus env q) = Inr r
      \<and> py_get r ''data'' (JList []) = Inr (JList as)
      \<and> list_all (valid_result ''session'' ''title'' ap_count) as \<longrightarrow>
      (\<exists>entries. fst (ap_search env q limit) = (entries, None)
         \<and> list_all2 (classified ''session'' ''title'' ap_count) (truncated limit as) entries))"
proof (intro conjI impI)
  assume a: "q \<noteq> [] \<and> fetch env (hi_search_url @ ''?q='' @ quote_plus env q) = Inr r
      \<and> getitem r ''data'' = Inr d \<and> getitem d ''animes'' = Inr (JList as)
      \<and> list_all (valid_result ''id'' ''name'' hi_count) as"
  then have run: "hi_search env q limit =
      (yield_all hi_metadata (truncated limit as),
       [Get (hi_search_url @ ''?q='' @ quote_plus env q)])"
    by (simp add: hi_search_def hi_request_def hi_missing_present limited_list lift_def)
  from a have "list_all (valid_result ''id'' ''name'' hi_count) (truncated limit as)"
    by (simp add: list_all_truncated)
  from yield_all_valid [of "valid_result ''id'' ''name'' hi_count" hi_metadata
      "classified ''id'' ''name'' hi_count", OF hi_metadata_valid this] run
  show "\<exists>entries. fst (hi_search env q limit) = (entries, None)
         \<and> list_all2 (classified ''id'' ''name'' hi_count) (truncated limit as) entries"
    by simp
next
  assume a: "fetch env (ap_search_url @ quote_plus env q) = Inr r
      \<and> py_get r ''data'' (JList []) = Inr (JList as)
      \<and> list_all (valid_result ''session'' ''title'' ap_count) as"
  then have run: "ap_search env q limit =
      (yield_all ap_metadata (truncated limit as), [Get (ap_search_url @ quote_plus env q)])"
    by (simp add: ap_search_def ap_request_def limited_list lift_def)
  from a have "list_all (valid_result ''session'' ''title'' ap_count) (truncated limit as)"
    by (simp add: list_all_truncated)
  from yield_all_valid [of "valid_result ''session'' ''title'' ap_count" ap_metadata
      "classified ''session'' ''title'' ap_count", OF ap_metadata_valid this] run
  show "\<exists>entries. fst (ap_search env q limit) = (entries, None)
         \<and> list_all2 (classified ''session'' ''title'' ap_count) (truncated limit as) entries"
    by simp
qed

theorem search_classifies_in_order_witness:
  "''naruto'' \<noteq> []
   \<and> fetch (always three_animes) (hi_search_url @ ''?q='' @ quote_plus (always three_animes) ''naruto'')
       = Inr three_animes
   \<and> (\<exists>entries. fst (hi_search (always three_animes) ''naruto'' (Some 2)) = (entries, None)
        \<and> list_all2 (classified ''id'' ''name'' hi_count)
             [JObj [(''id'', JStr ''naruto-677''), (''name'', JStr ''Naruto''),
                    (''episodes'', JObj [(''sub'', JInt 220)])],
              JObj [(''id'', JStr ''the-last''), (''name'', JStr ''The Last''),
                    (''episodes'', JObj [(''sub'', JInt 1)])]]
             entries)
   \<and> fst (hi_search (always three_animes) ''naruto'' (Some 2)) =
       ([\<lparr>m_id = JStr ''naruto-677'', m_title = JStr ''Naruto'', m_type = MULTI, m_year = JNull\<rparr>,
         \<lparr>m_id = JStr ''the-last'', m_title = JStr ''The Last'', m_type = SINGLE, m_year = JNull\<rparr>],
        None)
   \<and> (\<exists>entries. fst (ap_search (always three_results) ''naruto'' None) = (entries, None)
        \<and> list_all2 (classified ''session'' ''title'' ap_count)
             [JObj [(''session'', JStr ''abc''), (''title'', JStr ''Naruto''), (''episodes'', JInt 220)],
              JObj [(''session'', JStr ''def''), (''title'', JStr ''The Last''), (''episodes'', JInt 1)],
              JObj [(''session'', JStr ''ghi''), (''title'', JStr ''Boruto''), (''episodes'', JInt 293)]]
             entries)"
proof -
  let ?as = "[JObj [(''id'', JStr ''naruto-677''), (''name'', JStr ''Naruto''),
                    (''episodes'', JObj [(''sub'', JInt 220)])],
              JObj [(''id'', JStr ''the-last''), (''name'', JStr ''The Last''),
                    (''episodes'', JObj [(''sub'', JInt 1)])],
              JObj [(''id'', JStr ''boruto''), (''name'', JStr ''Boruto''),
                    (''episodes'', JObj [(''sub'', JInt 293)])]]"
  let ?rs = "[JObj [(''session'', JStr ''abc''), (''title'', JStr ''Naruto''), (''episodes'', JInt 220)],
              JObj [(''session'', JStr ''def''), (''title'', JStr ''The Last''), (''episodes'', JInt 1)],
              JObj [(''session'', JStr ''ghi''), (''title'', JStr ''Boruto''), (''episodes'', JInt 293)]]"
  have q: "''naruto'' \<noteq> []" by simp
  have hi: "fetch (always three_animes)
        (hi_search_url @ ''?q='' @ quote_plus (always three_animes) ''naruto'') = Inr three_animes"
    "getitem three_animes ''data'' = Inr (JObj [(''animes'', JList ?as)])"
    "getitem (JObj [(''animes'', JList ?as)]) ''animes'' = Inr (JList ?as)"
    "list_all (valid_result ''id'' ''name'' hi_count) ?as"
    by (simp_all add: example_defs valid_result_def count_of_def hi_count_def)
  have ap: "fetch (always three_results)
        (ap_search_url @ quote_plus (always three_results) ''naruto'') = Inr three_results"
    "py_get three_results ''data'' (JList []) = Inr (JList ?rs)"
    "list_all (valid_result ''session'' ''title'' ap_count) ?rs"
    by (simp_all add: example_defs valid_result_def count_of_def ap_count_def)
  from search_classifies_in_order [of "''naruto''" "always three_animes" three_animes
      "JObj [(''animes'', JList ?as)]" ?as "Some 2"] q hi
  have 1: "\<exists>entries. fst (hi_search (always three_animes) ''naruto'' (Some 2)) = (entries, None)
        \<and> list_all2 (classified ''id'' ''name'' hi_count) (truncated (Some 2) ?as) entries"
    by blast
  from search_classifies_in_order [of "''naruto''" "always three_results" three_results _ ?rs None] ap
  have 2: "\<exists>entries. fst (ap_search (always three_results) ''naruto'' None) = (entries, None)
        \<and> list_all2 (classified ''session'' ''title'' ap_count) (truncated None ?rs) entries"
    by blast
  have 3: "fst (hi_search (always three_animes) ''naruto'' (Some 2)) =
       ([\<lparr>m_id = JStr ''naruto-677'', m_title = JStr ''Naruto'', m_type = MULTI, m_year = JNull\<rparr>,
         \<lparr>m_id = JStr ''the-last'', m_title = JStr ''The Last'', m_type = SINGLE, m_year = JNull\<rparr>],
        None)"
    by (simp add: hi_search_def hi_request_def hi_missing_def hi_metadata_def limited_def
        slice_to_def example_defs)
  from q hi(1) 1 2 3 show ?thesis
    by (simp add: truncated_def)
qed

text \<open>A negative limit drops results from the end, as the slice of line 59 and line 44 does.\<close>

lemma search_negative_limit:
  "fst (ap_search (always three_results) ''naruto'' (Some (- 1))) =
     ([\<lparr>m_id = JStr ''abc'', m_title = JStr ''Naruto'', m_type = MULTI, m_year = JNull\<rparr>,
       \<lparr>m_id = JStr ''def'', m_title = JStr ''The Last'', m_type = SINGLE, m_year = JNull\<rparr>],
      None)"
  by (simp add: ap_search_def ap_request_def ap_metadata_def limited_def slice_to_def example_defs)

subsection \<open>The empty query\<close>

text \<open>
  C4, as the code has it. The JSON-API adapter's \<open>search\<close> answers the empty query with an
  empty sequence: it sends no request and logs one error. The HTML-scraping adapter has no such
  check. For every query, the empty one included, it sends exactly the search request; a failed
  request ends the sequence with that exception; and when the response holds a list under
  \<^verbatim>\<open>data\<close>, what it yields is what the results of that list (after the limit) give: one
  classified entry per result, in order, when every result is valid.
\<close>

theorem search_empty_query:
  "hi_search env [] limit = (([], None), [LogError])
   \<and> snd (ap_search env q limit) = [Get (ap_search_url @ quote_plus env q)]
   \<and> (\<forall>e. fetch env (ap_search_url @ quote_plus env q) = Inl e \<longrightarrow>
         fst (ap_search env q limit) = ([], Some e))
   \<and> (\<forall>r as. fetch env (ap_search_url @ quote_plus env q) = Inr r
         \<and> py_get r ''data'' (JList []) = Inr (JList as) \<longrightarrow>
         fst (ap_search env q limit) = yield_all ap_metadata (truncated limit as)
         \<and> (list_all (valid_result ''session'' ''title'' ap_count) as \<longrightarrow>
              (\<exists>entries. fst (ap_search env q limit) = (entries, None)
                 \<and> list_all2 (classified ''session'' ''title'' ap_count)
                      (truncated limit as) entries)))"
proof (intro conjI allI impI)
  show "hi_search env [] limit = (([], None), [LogError])"
    by (simp add: hi_search_def)
  show "snd (ap_search env q limit) = [Get (ap_search_url @ quote_plus env q)]"
    by (auto simp: ap_search_def ap_request_def bindR_def lift_def split: sum.splits prod.splits)
next
  fix e
  assume "fetch env (ap_search_url @ quote_plus env q) = Inl e"
  then show "fst (ap_search env q limit) = ([], Some e)"
    by (simp add: ap_search_def ap_request_def)
next
  fix r as
  assume a: "fetch env (ap_search_url @ quote_plus env q) = Inr r
         \<and> py_get r ''data'' (JList []) = Inr (JList as)"
  then show run: "fst (ap_search env q limit) = yield_all ap_metadata (truncated limit as)"
    by (simp add: ap_search_def ap_request_def limited_list lift_def)
  assume "list_all (valid_result ''session'' ''title'' ap_count) as"
  then have "list_all (valid_result ''session'' ''title'' ap_count) (truncated limit as)"
    by (simp add: list_all_truncated)
  from yield_all_valid [of "valid_result ''session'' ''title'' ap_count" ap_metadata
      "classified ''session'' ''title'' ap_count", OF ap_metadata_valid this] run
  show "\<exists>entries. fst (ap_search env q limit) = (entries, None)
         \<and> list_all2 (classified ''session'' ''title'' ap_count) (truncated limit as) entries"
    by simp
qed

theorem search_empty_query_witness:
  "fetch (always one_result) (ap_search_url @ quote_plus (always one_result) []) = Inr one_result
   \<and> py_get one_result ''data'' (JList []) =
       Inr (JList [JObj [(''session'', JStr ''abc''), (''title'', JStr ''Naruto''),
                         (''episodes'', JInt 220)]])
   \<and> fst (ap_search (always one_result) [] None) =
       ([\<lparr>m_id = JStr ''abc'', m_title = JStr ''Naruto'', m_type = MULTI, m_year = JNull\<rparr>], None)
   \<and> snd (ap_search (always one_result) [] None) = [Get ''https://animepahe.ru/api?m=search&q='']"
proof -
  let ?a = "JObj [(''session'', JStr ''abc''), (''title'', JStr ''Naruto''), (''episodes'', JInt 220)]"
  have f: "fetch (always one_result) (ap_search_url @ quote_plus (always one_result) [])
      = Inr one_result"
    and g: "py_get one_result ''data'' (JList []) = Inr (JList [?a])"
    by (simp_all add: example_defs)
  from search_empty_query [of "always one_result" None "[]"] f g
  have "fst (ap_search (always one_result) [] None) = yield_all ap_metadata (truncated None [?a])"
    by blast
  then have 1: "fst (ap_search (always one_result) [] None) =
       ([\<lparr>m_id = JStr ''abc'', m_title = JStr ''Naruto'', m_type = MULTI, m_year = JNull\<rparr>], None)"
    by (simp add: truncated_def ap_metadata_def)
  from search_empty_query [of "always one_result" None "[]"]
  have 2: "snd (ap_search (always one_result) [] None) = [Get ''https://animepahe.ru/api?m=search&q='']"
    by (simp add: example_defs url_defs)
  from f g 1 2 show ?thesis by blast
qed

text \<open>
  C4 as stated fails for the HTML-scraping adapter: with an upstream that answers the search
  request with one result, \<open>search("")\<close> sends the request and yields that result.
\<close>

theorem ap_search_empty_query_counterexample:
  "fst (fst (ap_search (always one_result) [] None)) \<noteq> []
   \<and> snd (ap_search (always one_result) [] None) = [Get ''https://animepahe.ru/api?m=search&q='']"
  by (simp add: ap_search_def ap_request_def ap_metadata_def limited_def example_defs url_defs)

subsection \<open>Absent keys\<close>

lemma lacks_missing:
  assumes "lacks r key"
  shows "hi_missing r key = Inr True"
proof (cases r)
  case (JObj kvs)
  show ?thesis
  proof (cases "map_of kvs ''data''")
    case None
    with JObj show ?thesis by (simp add: hi_missing_def)
  next
    case (Some x)
    with assms JObj obtain d where "x = JObj d" "map_of d key = None"
      by (cases x) (simp_all add: lacks_def)
    with Some JObj show ?thesis by (simp add: hi_missing_def)
  qed
qed (insert assms, simp_all add: lacks_def)

text \<open>
  C5, as the code has it. When the response lacks the listing key (\<^verbatim>\<open>animes\<close>,
  \<^verbatim>\<open>episodes\<close>, \<^verbatim>\<open>sources\<close>), the JSON-API adapter raises nothing: \<open>search\<close> yields nothing and
  logs a warning, \<open>scrape_episodes\<close> returns the sentinel, \<open>scrape\<close> returns a placeholder, each
  with one error logged. When the response is an object without \<^verbatim>\<open>data\<close>, the HTML-scraping
  adapter's \<open>search\<close> yields nothing and its \<open>scrape_episodes\<close> returns the sentinel, and its
  \<open>scrape\<close> raises the "not found" error.
\<close>

theorem missing_keys_degrade:
  "(q \<noteq> [] \<and> fetch env (hi_search_url @ ''?q='' @ quote_plus env q) = Inr r \<and> lacks r ''animes'' \<longrightarrow>
      hi_search env q limit =
        (([], None), [Get (hi_search_url @ ''?q='' @ quote_plus env q), LogWarning]))
   \<and> (fetch env (hi_episodes_request env m) = Inr r \<and> lacks r ''episodes'' \<longrightarrow>
      hi_scrape_episodes env m = (Inr sentinel, [Get (hi_episodes_request env m), LogError])
      \<and> hi_scrape env m ep = (Inr (placeholder_single m), [Get (hi_episodes_request env m), LogError]))
   \<and> (getitem t ''episodeId'' = Inr i
      \<and> fetch env (hi_episode_url @ ''?animeEpisodeId='' @ py_str env i) = Inr r
      \<and> lacks r ''sources'' \<longrightarrow>
      hi_resolve env m ep t =
        (Inr (if m_type m = MULTI then placeholder_multi m ep else placeholder_single m),
         [Get (hi_episode_url @ ''?animeEpisodeId='' @ py_str env i), LogError]))
   \<and> (fetch env (ap_search_url @ quote_plus env q) = Inr (JObj kvs) \<and> map_of kvs ''data'' = None \<longrightarrow>
      ap_search env q limit = (([], None), [Get (ap_search_url @ quote_plus env q)]))
   \<and> (fetch env (ap_release_request env m) = Inr (JObj kvs) \<and> map_of kvs ''data'' = None \<longrightarrow>
      ap_scrape_episodes env m = (Inr sentinel, [Get (ap_release_request env m)])
      \<and> ap_scrape env m (Some s) =
          (Inl (ValueError (''Episode '' @ show_int (episode s) @ '' not found'')),
           [Get (ap_release_request env m)]))"
  by (auto simp: hi_search_def hi_scrape_episodes_def hi_scrape_def hi_resolve_def hi_request_def
      lacks_missing ap_search_def ap_scrape_episodes_def ap_scrape_def ap_request_def limited_def
      slice_to_def ap_target_def ap_not_found_def selector_episode_def ret_def lift_def
      split: option.splits)

theorem missing_keys_degrade_witness:
  "''naruto'' \<noteq> [] \<and> lacks (JObj [(''data'', JObj [])]) ''animes''
   \<and> hi_search (always (JObj [(''data'', JObj [])])) ''naruto'' None =
       (([], None), [Get (hi_search_url @ ''?q=naruto''), LogWarning])
   \<and> hi_scrape_episodes (always (JObj [(''data'', JObj [])])) naruto =
       (Inr sentinel, [Get (hi_anime_url @ ''/naruto/episodes''), LogError])
   \<and> hi_scrape (always (JObj [(''data'', JObj [])])) naruto None =
       (Inr (placeholder_single naruto), [Get (hi_anime_url @ ''/naruto/episodes''), LogError])
   \<and> hi_resolve (always (JObj [(''data'', JObj [])])) naruto None
         (JObj [(''number'', JInt 1), (''episodeId'', JStr ''abc'')]) =
       (Inr (placeholder_multi naruto None), [Get (hi_episode_url @ ''?animeEpisodeId=abc''), LogError])
   \<and> ap_search (always (JObj [])) ''naruto'' None = (([], None), [Get (ap_search_url @ ''naruto'')])
   \<and> ap_scrape_episodes (always (JObj [])) naruto =
       (Inr sentinel, [Get (ap_release_url @ ''naruto&sort=episode_asc&page=1'')])
   \<and> ap_scrape (always (JObj [])) naruto (Some \<lparr>episode = 4, season = 1\<rparr>) =
       (Inl (ValueError ''Episode 4 not found''),
        [Get (ap_release_url @ ''naruto&sort=episode_asc&page=1'')])"
proof -
  let ?r = "JObj [(''data'', JObj [])]"
  let ?t = "JObj [(''number'', JInt 1), (''episodeId'', JStr ''abc'')]"
  have q: "''naruto'' \<noteq> []" by simp
  have l: "lacks ?r ''animes''" "lacks ?r ''episodes''" "lacks ?r ''sources''"
    by (simp_all add: lacks_def)
  have f: "\<And>u. fetch (always ?r) u = Inr ?r" "\<And>u. fetch (always (JObj [])) u = Inr (JObj [])"
    "map_of ([] :: (string \<times> json) list) ''data'' = None" "getitem ?t ''episodeId'' = Inr (JStr ''abc'')"
    by (simp_all add: example_defs)
  have s: "show_int 4 = ''4''" "m_type naruto = MULTI" "py_str (always ?r) (JStr ''abc'') = ''abc''"
    "quote_plus (always ?r) ''naruto'' = ''naruto''" "quote_plus (always (JObj [])) ''naruto'' = ''naruto''"
    "hi_episodes_request (always ?r) naruto = hi_anime_url @ ''/naruto/episodes''"
    "ap_release_request (always (JObj [])) naruto = ap_release_url @ ''naruto&sort=episode_asc&page=1''"
    by (simp_all add: show_int_def digit_char_def example_defs hi_episodes_request_def
        ap_release_request_def)
  from missing_keys_degrade [where q = "''naruto''" and env = "always ?r" and r = ?r
      and limit = None and m = naruto and ep = None and t = ?t and i = "JStr ''abc''"] q l f
  have 1: "hi_search (always ?r) ''naruto'' None =
       (([], None), [Get (hi_search_url @ ''?q='' @ quote_plus (always ?r) ''naruto''), LogWarning])"
    and 2: "hi_scrape_episodes (always ?r) naruto =
       (Inr sentinel, [Get (hi_episodes_request (always ?r) naruto), LogError])"
    and 3: "hi_scrape (always ?r) naruto None =
       (Inr (placeholder_single naruto), [Get (hi_episodes_request (always ?r) naruto), LogError])"
    and 4: "hi_resolve (always ?r) naruto None ?t =
        (Inr (if m_type naruto = MULTI then placeholder_multi naruto None
              else placeholder_single naruto),
         [Get (hi_episode_url @ ''?animeEpisodeId='' @ py_str (always ?r) (JStr ''abc'')), LogError])"
    by blast+
  from missing_keys_degrade [where q = "''naruto''" and env = "always (JObj [])" and kvs = "[]"
      and limit = None and m = naruto and s = "\<lparr>episode = 4, season = 1\<rparr>"] f
  have 5: "ap_search (always (JObj [])) ''naruto'' None =
       (([], None), [Get (ap_search_url @ quote_plus (always (JObj [])) ''naruto'')])"
    and 6: "ap_scrape_episodes (always (JObj [])) naruto =
       (Inr sentinel, [Get (ap_release_request (always (JObj [])) naruto)])"
    and 7: "ap_scrape (always (JObj [])) naruto (Some \<lparr>episode = 4, season = 1\<rparr>) =
       (Inl (ValueError (''Episode '' @ show_int (episode \<lparr>episode = 4, season = 1\<rparr>) @ '' not found'')),
        [Get (ap_release_request (always (JObj [])) naruto)])"
    by blast+
  from q l(1) 1 2 3 4 5 6 7 s show ?thesis by simp
qed

text \<open>
  C5 as stated fails: a search result without its \<^verbatim>\<open>id\<close> ends the JSON-API adapter's
  \<open>search\<close> with \<^verbatim>\<open>KeyError\<close>; an episode title without \<^verbatim>\<open>Episode N\<close> ends the
  HTML-scraping adapter's \<open>scrape_episodes\<close> with \<^verbatim>\<open>AttributeError\<close>; and a playback page
  without the \<^verbatim>\<open>pickDownload\<close> container ends its \<open>scrape\<close> with \<^verbatim>\<open>AttributeError\<close>.
\<close>

theorem schema_mismatch_counterexample:
  "snd (fst (hi_search
       (always (JObj [(''data'', JObj [(''animes'', JList [JObj [(''name'', JStr ''Naruto'')]])])]))
       ''naruto'' None)) = Some KeyError
   \<and> fst (ap_scrape_episodes
       (always (JObj [(''data'', JList [JObj [(''episode'', JStr ''Special'')]])])) naruto)
     = Inl AttributeError
   \<and> fst (ap_scrape (ap_upstream second_episode (Elem ''[document]'' [] [])) naruto
       (Some \<lparr>episode = 2, season = 1\<rparr>)) = Inl AttributeError"
  by (simp add: hi_search_def hi_request_def hi_missing_def hi_metadata_def limited_def
      ap_scrape_episodes_def ap_request_def ap_episode_number_def is_digit_def
      ap_scrape_def ap_target_def episode_num_def int_of_digits_def ap_resolve_def
      ap_request_html_def ap_download_def find_elem_def example_defs url_defs)

end
